theory Spec2Isabelle
  imports Main "HOL-Library.Sublist"
begin

section \<open>Messages, tables and the world\<close>

text \<open>
  The three services (pedidos, inventario, pagos) talk through two RabbitMQ queues,
  \<^verbatim>\<open>saga_events\<close> and \<^verbatim>\<open>pedidos_responses\<close>, and each owns the tables of
  \<^verbatim>\<open>scripts/init-db.sql\<close>. A JavaScript \<^verbatim>\<open>Error\<close> is a value carrying its message.
\<close>

datatype error = Error string

text \<open>
  A message payload is a JSON object; every field the code reads or writes is optional
  (\<open>None\<close> is JavaScript's \<^verbatim>\<open>undefined\<close>). The field \<open>error_msg\<close> is the
  property \<^verbatim>\<open>error\<close> of \<^verbatim>\<open>{ error: error.message }\<close>.
\<close>

record payload =
  productoId :: "int option"
  cantidad :: "int option"
  pedidoId :: "string option"
  metodoPago :: "string option"
  razon :: "string option"
  error_msg :: "string option"

definition sin_campos :: payload where
  "sin_campos = \<lparr>productoId = None, cantidad = None, pedidoId = None, metodoPago = None,
     razon = None, error_msg = None\<rparr>"

text \<open>A message of \<^verbatim>\<open>saga_events\<close> (built by \<^verbatim>\<open>publishSagaEvent\<close>) and a message of
  \<^verbatim>\<open>pedidos_responses\<close> (built by \<^verbatim>\<open>enviarRespuesta\<close>). The \<^verbatim>\<open>timestamp\<close> field is
  written and never read, and is left out.\<close>

record evento_saga =
  ev_sagaId :: string
  ev_evento :: string
  ev_payload :: payload

record respuesta =
  rs_sagaId :: string
  rs_evento :: string
  rs_success :: bool
  rs_payload :: payload
  rs_servicio :: string

text \<open>Rows of \<^verbatim>\<open>pedidos\<close>, \<^verbatim>\<open>saga_estados\<close>, \<^verbatim>\<open>reservas_temporales\<close> and
  \<^verbatim>\<open>transacciones\<close>, with the columns the code writes. Times are milliseconds.
  \<open>monto\<close> is \<open>None\<close> when JavaScript computed \<^verbatim>\<open>NaN\<close>. The ranges of the
  numeric columns are checked by the statements that write them.\<close>

record pedido =
  pedido_id :: string
  pedido_saga_id :: string
  pedido_usuario_id :: int
  pedido_producto_id :: int
  pedido_cantidad :: int
  pedido_estado :: string

record paso_saga =
  paso_saga_id :: string
  paso :: string
  paso_estado :: string

record reserva =
  reserva_saga_id :: string
  reserva_producto_id :: int
  cantidad_reservada :: int
  expira_en :: int
  reserva_estado :: string

record transaccion =
  transaction_id :: string
  trans_saga_id :: string
  monto :: "int option"
  metodo_pago :: string
  trans_estado :: string
  referencia_externa :: int

text \<open>
  The world: the tables, the two queues, the clock, and two fields that make the
  environment explicit.
  \<^item> \<open>productos\<close> maps a product id (the primary key) to its \<^verbatim>\<open>stock_disponible\<close>;
    no other column of \<^verbatim>\<open>productos\<close> is read or written by the saga code.
  \<^item> \<open>fallos\<close> is the outcome of the awaited I/O calls to come, in order: \<open>Some m\<close>
    when the call rejects with message \<open>m\<close> for a reason outside the tables (store or
    broker unreachable), \<open>None\<close> when it goes through. The empty list is an
    environment without faults.
  \<^item> \<open>historial\<close> records, in order, every value written to \<^verbatim>\<open>pedidos.estado\<close>
    together with the saga id of the statement. It is written by the model of the two
    statements that set that column, and read by no function.
\<close>

record mundo =
  pedidos :: "pedido list"
  saga_estados :: "paso_saga list"
  productos :: "int \<rightharpoonup> int"
  reservas_temporales :: "reserva list"
  transacciones :: "transaccion list"
  saga_events :: "evento_saga list"
  pedidos_responses :: "respuesta list"
  reloj :: int
  fallos :: "string option list"
  historial :: "(string \<times> string) list"

section \<open>Asynchronous calls that may reject\<close>

type_synonym 'a io = "mundo \<Rightarrow> (error + 'a) \<times> mundo"

definition io_return :: "'a \<Rightarrow> 'a io" where
  "io_return a w = (Inr a, w)"

definition io_throw :: "error \<Rightarrow> 'a io" where
  "io_throw e w = (Inl e, w)"

definition io_bind :: "'a io \<Rightarrow> ('a \<Rightarrow> 'b io) \<Rightarrow> 'b io" where
  "io_bind m f w = (case m w of (Inl e, w') \<Rightarrow> (Inl e, w') | (Inr a, w') \<Rightarrow> f a w')"

definition io_catch :: "'a io \<Rightarrow> (error \<Rightarrow> 'a io) \<Rightarrow> 'a io" where
  "io_catch m h w = (case m w of (Inl e, w') \<Rightarrow> h e w' | (Inr a, w') \<Rightarrow> (Inr a, w'))"

text \<open>One awaited call (\<^verbatim>\<open>pool.query\<close>, \<^verbatim>\<open>client.query\<close>, \<^verbatim>\<open>pool.connect\<close>,
  \<^verbatim>\<open>channel.sendToQueue\<close>): the environment decides whether it rejects; when it does
  not, the statement \<open>f\<close> runs, and may raise on its own.\<close>

definition consulta :: "'a io \<Rightarrow> 'a io" where
  "consulta f w =
     (case fallos w of
        [] \<Rightarrow> f w
      | None # fs \<Rightarrow> f (w\<lparr>fallos := fs\<rparr>)
      | Some m # fs \<Rightarrow> (Inl (Error m), w\<lparr>fallos := fs\<rparr>))"

definition sentencia :: "(mundo \<Rightarrow> mundo) \<Rightarrow> unit io" where
  "sentencia g = consulta (\<lambda>w. (Inr (), g w))"

section \<open>Column types\<close>

text \<open>
  The ranges of the column types of \<^verbatim>\<open>scripts/init-db.sql\<close>. An \<^verbatim>\<open>INTEGER\<close> holds
  a 32-bit signed value; the server answers \<^verbatim>\<open>integer out of range\<close> to an arithmetic
  result outside it, and refuses a parameter outside it when it binds the parameter
  (its message, which quotes the value, is shortened here). A \<^verbatim>\<open>DECIMAL(10,2)\<close> holds
  at most eight digits before the decimal point (\<^verbatim>\<open>numeric field overflow\<close> otherwise)
  and also \<^verbatim>\<open>NaN\<close>. A parameter that is \<^verbatim>\<open>undefined\<close> is sent as \<^verbatim>\<open>NULL\<close>.
  Identifiers are UUIDs; the model writes them as strings and the examples use short
  names for them.
\<close>

definition en_rango_integer :: "int \<Rightarrow> bool" where
  "en_rango_integer n = (- 2147483648 \<le> n \<and> n \<le> 2147483647)"

definition param_integer :: "int option \<Rightarrow> bool" where
  "param_integer x = (case x of None \<Rightarrow> True | Some n \<Rightarrow> en_rango_integer n)"

definition en_rango_decimal_10_2 :: "int \<Rightarrow> bool" where
  "en_rango_decimal_10_2 n = (- 100000000 < n \<and> n < 100000000)"

section \<open>Inventario: services/inventario/src/app.js\<close>

text \<open>\<^verbatim>\<open>enviarRespuesta\<close>: one \<^verbatim>\<open>channel.sendToQueue('pedidos_responses', ...)\<close>.
  Inventario and pagos each have their own copy, which differ in the \<^verbatim>\<open>servicio\<close>
  field only; it is the first parameter here.\<close>

definition enviarRespuesta :: "string \<Rightarrow> string \<Rightarrow> string \<Rightarrow> bool \<Rightarrow> payload \<Rightarrow> unit io" where
  "enviarRespuesta servicio sid ev ok pl =
     sentencia (\<lambda>w. w\<lparr>pedidos_responses := pedidos_responses w @
        [\<lparr>rs_sagaId = sid, rs_evento = ev, rs_success = ok, rs_payload = pl,
          rs_servicio = servicio\<rparr>]\<rparr>)"

text \<open>\<^verbatim>\<open>ROLLBACK\<close>: a transaction that is not committed leaves the two inventory tables as
  they were at \<^verbatim>\<open>BEGIN\<close> (the snapshot \<open>w0\<close>), whether or not the statement itself is
  acknowledged.\<close>

definition rollback :: "mundo \<Rightarrow> unit io" where
  "rollback w0 w =
     sentencia (\<lambda>w. w)
       (w\<lparr>productos := productos w0, reservas_temporales := reservas_temporales w0\<rparr>)"

text \<open>\<^verbatim>\<open>SELECT stock_disponible FROM productos WHERE id = $1 FOR UPDATE\<close>; an undefined
  parameter is sent as \<^verbatim>\<open>NULL\<close> and matches no row.\<close>

definition seleccionar_stock :: "int option \<Rightarrow> int option io" where
  "seleccionar_stock pid =
     consulta (\<lambda>w.
       if \<not> param_integer pid then (Inl (Error ''value out of range for type integer''), w)
       else (Inr (case pid of None \<Rightarrow> None | Some p \<Rightarrow> productos w p), w))"

text \<open>\<^verbatim>\<open>UPDATE productos SET stock_disponible = stock_disponible - $1 WHERE id = $2\<close> of
  the reservation and \<^verbatim>\<open>... stock_disponible + $1 ...\<close> of the release: \<open>f\<close> is the
  subtraction or the addition. Both parameters are bound as \<^verbatim>\<open>INTEGER\<close>; on the
  matching row a \<^verbatim>\<open>NULL\<close> amount violates \<^verbatim>\<open>stock_disponible INTEGER NOT NULL\<close> and a
  result outside the range of \<^verbatim>\<open>INTEGER\<close> is refused.\<close>

definition actualizar_stock :: "(int \<Rightarrow> int \<Rightarrow> int) \<Rightarrow> int option \<Rightarrow> int option \<Rightarrow> unit io" where
  "actualizar_stock f d pid =
     consulta (\<lambda>w.
       if \<not> (param_integer d \<and> param_integer pid)
       then (Inl (Error ''value out of range for type integer''), w)
       else
        (case pid of
           None \<Rightarrow> (Inr (), w)
         | Some p \<Rightarrow>
            (case productos w p of
               None \<Rightarrow> (Inr (), w)
             | Some s \<Rightarrow>
                (case d of
                   None \<Rightarrow> (Inl (Error ''null value in column stock_disponible violates not-null constraint''), w)
                 | Some n \<Rightarrow>
                     if en_rango_integer (f s n)
                     then (Inr (), w\<lparr>productos := (productos w)(p \<mapsto> f s n)\<rparr>)
                     else (Inl (Error ''integer out of range''), w)))))"

text \<open>\<^verbatim>\<open>INSERT INTO reservas_temporales (saga_id, producto_id, cantidad_reservada, expira_en)\<close>;
  \<^verbatim>\<open>estado\<close> takes its default \<^verbatim>\<open>'ACTIVA'\<close>. Both inserted numbers are
  \<^verbatim>\<open>INTEGER NOT NULL\<close> and \<^verbatim>\<open>producto_id\<close> references \<^verbatim>\<open>productos(id)\<close>. The expiry
  is \<^verbatim>\<open>Date.now() + 10 * 60 * 1000\<close>.\<close>

definition insertar_reserva :: "string \<Rightarrow> int option \<Rightarrow> int option \<Rightarrow> unit io" where
  "insertar_reserva sid pid cant =
     consulta (\<lambda>w.
       if \<not> (param_integer pid \<and> param_integer cant)
       then (Inl (Error ''value out of range for type integer''), w)
       else
        (case (pid, cant) of
           (Some p, Some n) \<Rightarrow>
             if productos w p = None
             then (Inl (Error ''insert on reservas_temporales violates foreign key constraint''), w)
             else
               (Inr (), w\<lparr>reservas_temporales := reservas_temporales w @
                  [\<lparr>reserva_saga_id = sid, reserva_producto_id = p, cantidad_reservada = n,
                    expira_en = reloj w + 10 * 60 * 1000, reserva_estado = ''ACTIVA''\<rparr>]\<rparr>)
         | _ \<Rightarrow> (Inl (Error ''null value in column of reservas_temporales violates not-null constraint''), w)))"

text \<open>\<^verbatim>\<open>pool.connect()\<close>, \<^verbatim>\<open>BEGIN\<close> and \<^verbatim>\<open>COMMIT\<close> change no table of the model: the
  statements of a transaction are applied as they run and undone by \<open>rollback\<close>.\<close>

definition pool_connect :: "unit io" where
  "pool_connect = sentencia (\<lambda>w. w)"

definition sql_begin :: "unit io" where
  "sql_begin = sentencia (\<lambda>w. w)"

definition sql_commit :: "unit io" where
  "sql_commit = sentencia (\<lambda>w. w)"

text \<open>\<^verbatim>\<open>stockDisponible < cantidad\<close>: a comparison with \<^verbatim>\<open>undefined\<close> is false.\<close>

definition js_menor :: "int \<Rightarrow> int option \<Rightarrow> bool" where
  "js_menor s c = (case c of None \<Rightarrow> False | Some n \<Rightarrow> s < n)"

definition reservarStock :: "string \<Rightarrow> int option \<Rightarrow> int option \<Rightarrow> bool io" where
  "reservarStock sid pid cant w0 =
     io_bind pool_connect (\<lambda>_.
       io_catch
         (io_bind sql_begin (\<lambda>_.
          io_bind (seleccionar_stock pid) (\<lambda>stockResult.
            case stockResult of
              None \<Rightarrow> io_throw (Error ''Producto no encontrado'')
            | Some stockDisponible \<Rightarrow>
                if js_menor stockDisponible cant
                then io_bind (rollback w0) (\<lambda>_. io_return False)
                else
                  io_bind (actualizar_stock (-) cant pid) (\<lambda>_.
                  io_bind (insertar_reserva sid pid cant) (\<lambda>_.
                  io_bind sql_commit (\<lambda>_.
                  io_return True))))))
         (\<lambda>error. io_bind (rollback w0) (\<lambda>_. io_throw error)))
     w0"

text \<open>\<^verbatim>\<open>SELECT * FROM reservas_temporales WHERE saga_id = $1 AND estado = 'ACTIVA'\<close>, rows in
  table order.\<close>

definition seleccionar_reservas_activas :: "string \<Rightarrow> reserva list io" where
  "seleccionar_reservas_activas sid =
     consulta (\<lambda>w. (Inr (filter (\<lambda>r. reserva_saga_id r = sid \<and> reserva_estado r = ''ACTIVA'')
                           (reservas_temporales w)), w))"

text \<open>\<^verbatim>\<open>UPDATE reservas_temporales SET estado = 'LIBERADA' WHERE saga_id = $2\<close>: every row of
  the saga, whatever its current \<^verbatim>\<open>estado\<close>.\<close>

definition marcar_liberadas :: "string \<Rightarrow> unit io" where
  "marcar_liberadas sid =
     sentencia (\<lambda>w. w\<lparr>reservas_temporales :=
        map (\<lambda>r. if reserva_saga_id r = sid then r\<lparr>reserva_estado := ''LIBERADA''\<rparr> else r)
          (reservas_temporales w)\<rparr>)"

definition liberarStock :: "string \<Rightarrow> unit io" where
  "liberarStock sid w0 =
     io_bind pool_connect (\<lambda>_.
       io_catch
         (io_bind sql_begin (\<lambda>_.
          io_bind (seleccionar_reservas_activas sid) (\<lambda>reservaResult.
          io_bind
            (case reservaResult of
               [] \<Rightarrow> io_return ()
             | reserva # _ \<Rightarrow>
                 io_bind (actualizar_stock (+) (Some (cantidad_reservada reserva))
                            (Some (reserva_producto_id reserva))) (\<lambda>_.
                 marcar_liberadas sid))
            (\<lambda>_. sql_commit))))
         (\<lambda>error. io_bind (rollback w0) (\<lambda>_. io_throw error)))
     w0"

definition mensaje :: "error \<Rightarrow> string" where
  "mensaje e = (case e of Error m \<Rightarrow> m)"

definition procesarEventoInventario :: "evento_saga \<Rightarrow> unit io" where
  "procesarEventoInventario event =
     io_catch
       (if ev_evento event = ''RESERVAR_INVENTARIO'' then
          io_bind (reservarStock (ev_sagaId event) (productoId (ev_payload event))
                     (cantidad (ev_payload event))) (\<lambda>success.
          enviarRespuesta ''inventario'' (ev_sagaId event) ''INVENTARIO_RESERVADO'' success
            (ev_payload event))
        else if ev_evento event = ''LIBERAR_INVENTARIO'' then
          liberarStock (ev_sagaId event)
        else io_return ())
       (\<lambda>error. enviarRespuesta ''inventario'' (ev_sagaId event) ''INVENTARIO_RESERVADO'' False
          (sin_campos\<lparr>error_msg := Some (mensaje error)\<rparr>))"

text \<open>
  The expiry sweep, the callback of \<^verbatim>\<open>setInterval(..., 5 * 60 * 1000)\<close>; the callback
  is anonymous and is named here after its comment, ``Limpiar reservas expiradas''. Its two
  statements are separate \<^verbatim>\<open>pool.query\<close> calls, outside any transaction. Its first
  statement returns the number of rows it changed. Its second statement is an
  \<^verbatim>\<open>UPDATE productos ... FROM reservas_temporales rt\<close>: PostgreSQL updates each product
  row at most once, from one of the reservation rows that join with it; the model takes
  the first such row in table order (\<open>reservas_a_devolver\<close>, \<open>stock_devuelto\<close>). The
  statement fails as a whole when a new stock is outside the range of \<^verbatim>\<open>INTEGER\<close>;
  only products with a reservation can change, so the check runs over the reservations.
  Both statements read the clock of the world. An error is logged and swallowed.
\<close>

definition marcar_expiradas :: "nat io" where
  "marcar_expiradas =
     consulta (\<lambda>w.
       (Inr (length (filter (\<lambda>r. expira_en r < reloj w \<and> reserva_estado r = ''ACTIVA'')
                       (reservas_temporales w))),
        w\<lparr>reservas_temporales :=
            map (\<lambda>r. if expira_en r < reloj w \<and> reserva_estado r = ''ACTIVA''
                     then r\<lparr>reserva_estado := ''EXPIRADA''\<rparr> else r)
              (reservas_temporales w)\<rparr>))"

definition reservas_a_devolver :: "mundo \<Rightarrow> int \<Rightarrow> reserva list" where
  "reservas_a_devolver w p =
     filter (\<lambda>rt. reserva_producto_id rt = p \<and> reserva_estado rt = ''EXPIRADA'' \<and>
                  expira_en rt > reloj w - 60 * 1000)
       (reservas_temporales w)"

definition stock_devuelto :: "mundo \<Rightarrow> int \<Rightarrow> int option" where
  "stock_devuelto w p =
     (case productos w p of
        None \<Rightarrow> None
      | Some s \<Rightarrow>
         (case reservas_a_devolver w p of
            [] \<Rightarrow> Some s
          | rt # _ \<Rightarrow> Some (s + cantidad_reservada rt)))"

definition devolver_stock_expiradas :: "unit io" where
  "devolver_stock_expiradas =
     consulta (\<lambda>w.
       if list_ex (\<lambda>rt. case stock_devuelto w (reserva_producto_id rt) of
                          None \<Rightarrow> False
                        | Some s \<Rightarrow> \<not> en_rango_integer s)
            (reservas_temporales w)
       then (Inl (Error ''integer out of range''), w)
       else (Inr (), w\<lparr>productos := stock_devuelto w\<rparr>))"

definition limpiarReservasExpiradas :: "unit io" where
  "limpiarReservasExpiradas =
     io_catch
       (io_bind marcar_expiradas (\<lambda>rowCount.
          if rowCount > 0 then devolver_stock_expiradas else io_return ()))
       (\<lambda>error. io_return ())"

section \<open>Pedidos, the orchestrator: services/pedidos/src/app.js\<close>

text \<open>\<^verbatim>\<open>publishSagaEvent\<close>: one \<^verbatim>\<open>channel.sendToQueue('saga_events', ...)\<close>.\<close>

definition publishSagaEvent :: "string \<Rightarrow> string \<Rightarrow> payload \<Rightarrow> unit io" where
  "publishSagaEvent sid ev pl =
     sentencia (\<lambda>w. w\<lparr>saga_events := saga_events w @
        [\<lparr>ev_sagaId = sid, ev_evento = ev, ev_payload = pl\<rparr>]\<rparr>)"

text \<open>\<^verbatim>\<open>INSERT INTO saga_estados (saga_id, paso, estado)\<close>.\<close>

definition updateSagaState :: "string \<Rightarrow> string \<Rightarrow> string \<Rightarrow> unit io" where
  "updateSagaState sid p e =
     sentencia (\<lambda>w. w\<lparr>saga_estados := saga_estados w @
        [\<lparr>paso_saga_id = sid, paso = p, paso_estado = e\<rparr>]\<rparr>)"

text \<open>\<^verbatim>\<open>UPDATE pedidos SET estado = $1 WHERE saga_id = $2\<close>: no condition on the current
  \<^verbatim>\<open>estado\<close>.\<close>

definition updatePedidoState :: "string \<Rightarrow> string \<Rightarrow> unit io" where
  "updatePedidoState sid e =
     sentencia (\<lambda>w. w\<lparr>pedidos :=
          map (\<lambda>p. if pedido_saga_id p = sid then p\<lparr>pedido_estado := e\<rparr> else p) (pedidos w),
        historial := historial w @ [(sid, e)]\<rparr>)"

definition compensateSaga :: "string \<Rightarrow> string \<Rightarrow> unit io" where
  "compensateSaga sid rz =
     io_bind (updatePedidoState sid ''COMPENSANDO'') (\<lambda>_.
     io_bind (publishSagaEvent sid ''COMPENSAR_PAGO'' (sin_campos\<lparr>razon := Some rz\<rparr>)) (\<lambda>_.
     io_bind (publishSagaEvent sid ''LIBERAR_INVENTARIO'' (sin_campos\<lparr>razon := Some rz\<rparr>)) (\<lambda>_.
     io_bind (updatePedidoState sid ''CANCELADA'') (\<lambda>_.
     updateSagaState sid ''COMPENSACION'' ''COMPLETADO''))))"

text \<open>The \<^verbatim>\<open>switch\<close> inside the \<^verbatim>\<open>try\<close> of \<^verbatim>\<open>processSagaResponse\<close>, then the function
  with its \<^verbatim>\<open>catch\<close>.\<close>

definition despachar_respuesta :: "respuesta \<Rightarrow> unit io" where
  "despachar_respuesta event =
     (if rs_evento event = ''INVENTARIO_RESERVADO'' then
        (if rs_success event then
           io_bind (updateSagaState (rs_sagaId event) ''RESERVAR_INVENTARIO'' ''COMPLETADO'') (\<lambda>_.
           io_bind (updatePedidoState (rs_sagaId event) ''INVENTARIO_RESERVADO'') (\<lambda>_.
           publishSagaEvent (rs_sagaId event) ''PROCESAR_PAGO'' (rs_payload event)))
         else compensateSaga (rs_sagaId event) ''INVENTARIO_NO_DISPONIBLE'')
      else if rs_evento event = ''PAGO_PROCESADO'' then
        (if rs_success event then
           io_bind (updateSagaState (rs_sagaId event) ''PROCESAR_PAGO'' ''COMPLETADO'') (\<lambda>_.
           io_bind (updatePedidoState (rs_sagaId event) ''PAGO_PROCESADO'') (\<lambda>_.
           publishSagaEvent (rs_sagaId event) ''CONFIRMAR_PEDIDO'' (rs_payload event)))
         else compensateSaga (rs_sagaId event) ''PAGO_RECHAZADO'')
      else if rs_evento event = ''PEDIDO_CONFIRMADO'' then
        io_bind (updateSagaState (rs_sagaId event) ''CONFIRMAR_PEDIDO'' ''COMPLETADO'') (\<lambda>_.
        updatePedidoState (rs_sagaId event) ''COMPLETADA'')
      else io_return ())"

definition processSagaResponse :: "respuesta \<Rightarrow> unit io" where
  "processSagaResponse event =
     io_catch (despachar_respuesta event)
       (\<lambda>error. compensateSaga (rs_sagaId event) ''ERROR_INTERNO'')"

text \<open>
  \<^verbatim>\<open>POST /pedidos\<close>, after \<^verbatim>\<open>authenticateToken\<close>. The request carries
  \<^verbatim>\<open>req.user.usuarioId\<close> and the three body fields; each may be absent. The two
  identifiers come from \<^verbatim>\<open>uuidv4()\<close> and are parameters. The \<^verbatim>\<open>INSERT INTO pedidos\<close>
  is checked by the table: \<^verbatim>\<open>usuario_id\<close>, \<^verbatim>\<open>producto_id\<close> and \<^verbatim>\<open>cantidad\<close> are
  \<^verbatim>\<open>INTEGER NOT NULL\<close>, \<^verbatim>\<open>id\<close> is the primary key and \<^verbatim>\<open>saga_id\<close> is \<^verbatim>\<open>UNIQUE\<close>.
\<close>

record solicitud =
  req_usuarioId :: "int option"
  req_productoId :: "int option"
  req_cantidad :: "int option"
  req_metodoPago :: "string option"

datatype respuesta_http = Http201 string string string | Http500 string

definition insertar_pedido ::
  "string \<Rightarrow> string \<Rightarrow> int option \<Rightarrow> int option \<Rightarrow> int option \<Rightarrow> string \<Rightarrow> unit io" where
  "insertar_pedido pid sid usuario producto cant e =
     consulta (\<lambda>w.
       if \<not> (param_integer usuario \<and> param_integer producto \<and> param_integer cant)
       then (Inl (Error ''value out of range for type integer''), w)
       else
        (case (usuario, producto, cant) of
           (Some u, Some p, Some c) \<Rightarrow>
             if pid \<in> set (map pedido_id (pedidos w)) \<or> sid \<in> set (map pedido_saga_id (pedidos w))
             then (Inl (Error ''duplicate key value violates unique constraint''), w)
             else (Inr (), w\<lparr>pedidos := pedidos w @
                     [\<lparr>pedido_id = pid, pedido_saga_id = sid, pedido_usuario_id = u,
                       pedido_producto_id = p, pedido_cantidad = c, pedido_estado = e\<rparr>],
                     historial := historial w @ [(sid, e)]\<rparr>)
         | _ \<Rightarrow> (Inl (Error ''null value in column of pedidos violates not-null constraint''), w)))"

definition crearPedido :: "string \<Rightarrow> string \<Rightarrow> solicitud \<Rightarrow> mundo \<Rightarrow> respuesta_http \<times> mundo" where
  "crearPedido sagaUuid pedidoUuid req w =
     (case
        io_bind (insertar_pedido pedidoUuid sagaUuid (req_usuarioId req) (req_productoId req)
                   (req_cantidad req) ''INICIADA'') (\<lambda>_.
        io_bind (updateSagaState sagaUuid ''CREAR_PEDIDO'' ''COMPLETADO'') (\<lambda>_.
        publishSagaEvent sagaUuid ''RESERVAR_INVENTARIO''
          (sin_campos\<lparr>productoId := req_productoId req, cantidad := req_cantidad req,
             pedidoId := Some pedidoUuid, metodoPago := req_metodoPago req\<rparr>))) w
      of
        (Inr _, w') \<Rightarrow> (Http201 pedidoUuid sagaUuid ''INICIADA'', w')
      | (Inl error, w') \<Rightarrow> (Http500 ''Error interno'', w'))"

section \<open>Pagos: services/pagos/src/app.js\<close>

definition metodosValidos :: "string list" where
  "metodosValidos = [''tarjeta_credito'', ''tarjeta_debito'', ''pse'', ''efectivo'']"

text \<open>\<^verbatim>\<open>precios[productoId] || 100000.00\<close>.\<close>

definition obtenerPrecioProducto :: "int option \<Rightarrow> int" where
  "obtenerPrecioProducto pid =
     (if pid = Some 1 then 450000 else if pid = Some 2 then 180000
      else if pid = Some 3 then 85000 else if pid = Some 4 then 890000 else 100000)"

text \<open>\<^verbatim>\<open>INSERT INTO transacciones\<close>; \<^verbatim>\<open>monto\<close> is \<^verbatim>\<open>DECIMAL(10,2)\<close> and
  \<^verbatim>\<open>transaction_id\<close> is \<^verbatim>\<open>UNIQUE\<close>. The reference
  \<^verbatim>\<open>REF-${Date.now()}\<close> is stored as its number.\<close>

definition insertar_transaccion ::
  "string \<Rightarrow> string \<Rightarrow> int option \<Rightarrow> string \<Rightarrow> string \<Rightarrow> unit io" where
  "insertar_transaccion tid sid m metodo e =
     consulta (\<lambda>w.
       if \<not> (case m of None \<Rightarrow> True | Some v \<Rightarrow> en_rango_decimal_10_2 v)
       then (Inl (Error ''numeric field overflow''), w)
       else if tid \<in> set (map transaction_id (transacciones w))
       then (Inl (Error ''duplicate key value violates unique constraint''), w)
       else (Inr (), w\<lparr>transacciones := transacciones w @
               [\<lparr>transaction_id = tid, trans_saga_id = sid, monto = m, metodo_pago = metodo,
                 trans_estado = e, referencia_externa = reloj w\<rparr>]\<rparr>))"

text \<open>\<^verbatim>\<open>procesarPago\<close>. The identifier from \<^verbatim>\<open>uuidv4()\<close> and the draw
  \<^verbatim>\<open>exitoso = Math.random() > 0.1\<close> are parameters. \<^verbatim>\<open>precio * cantidad\<close> with an
  undefined quantity is \<^verbatim>\<open>NaN\<close>.\<close>

definition procesarPago :: "string \<Rightarrow> payload \<Rightarrow> string \<Rightarrow> bool \<Rightarrow> bool io" where
  "procesarPago sid pl transactionId exitoso =
     io_catch
       (case metodoPago pl of
          None \<Rightarrow> io_return False
        | Some m \<Rightarrow>
            if m \<notin> set metodosValidos then io_return False
            else
              (let precio = obtenerPrecioProducto (productoId pl);
                   montoTotal = map_option (\<lambda>c. precio * c) (cantidad pl)
               in io_bind (insertar_transaccion transactionId sid montoTotal m
                             (if exitoso then ''APROBADA'' else ''RECHAZADA'')) (\<lambda>_.
                  io_return exitoso)))
       (\<lambda>error. io_return False)"

definition seleccionar_aprobadas :: "string \<Rightarrow> transaccion list io" where
  "seleccionar_aprobadas sid =
     consulta (\<lambda>w. (Inr (filter (\<lambda>t. trans_saga_id t = sid \<and> trans_estado t = ''APROBADA'')
                           (transacciones w)), w))"

definition marcar_revertida :: "string \<Rightarrow> unit io" where
  "marcar_revertida tid =
     sentencia (\<lambda>w. w\<lparr>transacciones :=
        map (\<lambda>t. if transaction_id t = tid then t\<lparr>trans_estado := ''REVERTIDA''\<rparr> else t)
          (transacciones w)\<rparr>)"

definition compensarPago :: "string \<Rightarrow> unit io" where
  "compensarPago sid =
     io_catch
       (io_bind (seleccionar_aprobadas sid) (\<lambda>result.
          case result of
            [] \<Rightarrow> io_return ()
          | transaccion # _ \<Rightarrow> marcar_revertida (transaction_id transaccion)))
       (\<lambda>error. io_throw error)"

definition procesarEventoPago :: "evento_saga \<Rightarrow> string \<Rightarrow> bool \<Rightarrow> unit io" where
  "procesarEventoPago event transactionId exitoso =
     io_catch
       (if ev_evento event = ''PROCESAR_PAGO'' then
          io_bind (procesarPago (ev_sagaId event) (ev_payload event) transactionId exitoso)
            (\<lambda>success.
          enviarRespuesta ''pagos'' (ev_sagaId event) ''PAGO_PROCESADO'' success (ev_payload event))
        else if ev_evento event = ''COMPENSAR_PAGO'' then
          compensarPago (ev_sagaId event)
        else io_return ())
       (\<lambda>error. enviarRespuesta ''pagos'' (ev_sagaId event) ''PAGO_PROCESADO'' False
          (sin_campos\<lparr>error_msg := Some (mensaje error)\<rparr>))"

section \<open>The composed system\<close>

text \<open>
  The callbacks of \<^verbatim>\<open>channel.consume\<close>. Inventario and pagos both consume
  \<^verbatim>\<open>saga_events\<close>, so the broker hands each message of that queue to one of them; the
  callback runs its handler only for its own two event names, and acknowledges the
  message either way. Pedidos consumes \<^verbatim>\<open>pedidos_responses\<close>. A callback whose handler
  raises does not reach \<^verbatim>\<open>channel.ack\<close>: the message stays in the queue.
\<close>

definition recibir_inventario :: "unit io" where
  "recibir_inventario w =
     (case saga_events w of
        [] \<Rightarrow> (Inr (), w)
      | event # resto \<Rightarrow>
         (case (if ev_evento event = ''RESERVAR_INVENTARIO'' \<or> ev_evento event = ''LIBERAR_INVENTARIO''
                then procesarEventoInventario event else io_return ())
                 (w\<lparr>saga_events := resto\<rparr>) of
            (Inr _, w') \<Rightarrow> (Inr (), w')
          | (Inl e, w') \<Rightarrow> (Inl e, w'\<lparr>saga_events := event # saga_events w'\<rparr>)))"

definition recibir_pagos :: "string \<Rightarrow> bool \<Rightarrow> unit io" where
  "recibir_pagos transactionId exitoso w =
     (case saga_events w of
        [] \<Rightarrow> (Inr (), w)
      | event # resto \<Rightarrow>
         (case (if ev_evento event = ''PROCESAR_PAGO'' \<or> ev_evento event = ''COMPENSAR_PAGO''
                then procesarEventoPago event transactionId exitoso else io_return ())
                 (w\<lparr>saga_events := resto\<rparr>) of
            (Inr _, w') \<Rightarrow> (Inr (), w')
          | (Inl e, w') \<Rightarrow> (Inl e, w'\<lparr>saga_events := event # saga_events w'\<rparr>)))"

definition recibir_pedidos :: "unit io" where
  "recibir_pedidos w =
     (case pedidos_responses w of
        [] \<Rightarrow> (Inr (), w)
      | event # resto \<Rightarrow>
         (case processSagaResponse event (w\<lparr>pedidos_responses := resto\<rparr>) of
            (Inr _, w') \<Rightarrow> (Inr (), w')
          | (Inl e, w') \<Rightarrow> (Inl e, w'\<lparr>pedidos_responses := event # pedidos_responses w'\<rparr>)))"

text \<open>One move of the system: a delivery to one consumer, a run of the sweep, or the
  clock advancing by some milliseconds (it never runs backwards). A schedule is a list of moves.\<close>

datatype accion =
    EntregaInventario
  | EntregaPagos string bool
  | EntregaPedidos
  | Barrido
  | Tic int

fun mover :: "accion \<Rightarrow> mundo \<Rightarrow> mundo" where
  "mover EntregaInventario w = snd (recibir_inventario w)"
| "mover (EntregaPagos transactionId exitoso) w = snd (recibir_pagos transactionId exitoso w)"
| "mover EntregaPedidos w = snd (recibir_pedidos w)"
| "mover Barrido w = snd (limpiarReservasExpiradas w)"
| "mover (Tic d) w = w\<lparr>reloj := reloj w + max 0 d\<rparr>"

fun ejecutar :: "accion list \<Rightarrow> mundo \<Rightarrow> mundo" where
  "ejecutar [] w = w"
| "ejecutar (a # as) w = ejecutar as (mover a w)"

text \<open>The world after \<^verbatim>\<open>scripts/init-db.sql\<close>: the four seeded products, empty queues.\<close>

definition mundo_inicial :: mundo where
  "mundo_inicial =
     \<lparr>pedidos = [], saga_estados = [],
      productos = [1 \<mapsto> 10, 2 \<mapsto> 15, 3 \<mapsto> 20, 4 \<mapsto> 8],
      reservas_temporales = [], transacciones = [], saga_events = [], pedidos_responses = [],
      reloj = 0, fallos = [], historial = []\<rparr>"

section \<open>Notions used by the properties\<close>

text \<open>The \<^verbatim>\<open>ACTIVA\<close> reservations of a saga, and the world left by a release that meets no
  fault.\<close>

definition activas :: "string \<Rightarrow> mundo \<Rightarrow> reserva list" where
  "activas sid w =
     filter (\<lambda>r. reserva_saga_id r = sid \<and> reserva_estado r = ''ACTIVA'') (reservas_temporales w)"

definition liberado :: "string \<Rightarrow> mundo \<Rightarrow> mundo" where
  "liberado sid w = snd (liberarStock sid (w\<lparr>fallos := []\<rparr>))"

definition tablas_inventario :: "mundo \<Rightarrow> (int \<rightharpoonup> int) \<times> reserva list" where
  "tablas_inventario w = (productos w, reservas_temporales w)"

text \<open>Stock conservation: the available stock of a product plus the quantities of its
  \<^verbatim>\<open>ACTIVA\<close> reservations.\<close>

definition reservado_activo :: "mundo \<Rightarrow> int \<Rightarrow> int" where
  "reservado_activo w p =
     sum_list (map cantidad_reservada
       (filter (\<lambda>r. reserva_producto_id r = p \<and> reserva_estado r = ''ACTIVA'')
          (reservas_temporales w)))"

definition stock_total :: "mundo \<Rightarrow> int \<Rightarrow> int option" where
  "stock_total w p = map_option (\<lambda>s. s + reservado_activo w p) (productos w p)"

text \<open>The statuses written for one saga, the two paths of the saga status, and the
  handling of a list of responses, one after the other.\<close>

definition historial_de :: "string \<Rightarrow> mundo \<Rightarrow> string list" where
  "historial_de sid w = map snd (filter (\<lambda>h. fst h = sid) (historial w))"

definition adelante :: "string list" where
  "adelante = [''INICIADA'', ''INVENTARIO_RESERVADO'', ''PAGO_PROCESADO'', ''COMPLETADA'']"

definition camino_valido :: "string list \<Rightarrow> bool" where
  "camino_valido xs =
     (prefix xs adelante
      \<or> prefix xs (take 1 adelante @ [''COMPENSANDO'', ''CANCELADA''])
      \<or> prefix xs (take 2 adelante @ [''COMPENSANDO'', ''CANCELADA''])
      \<or> prefix xs (take 3 adelante @ [''COMPENSANDO'', ''CANCELADA'']))"

fun procesar_respuestas :: "respuesta list \<Rightarrow> mundo \<Rightarrow> mundo" where
  "procesar_respuestas [] w = w"
| "procesar_respuestas (r # rs) w = procesar_respuestas rs (snd (processSagaResponse r w))"

text \<open>The request of scenario 1 (two units of product 1, by credit card) from a principal
  that carries \<^verbatim>\<open>usuarioId\<close>, and the world once \<^verbatim>\<open>POST /pedidos\<close> has answered.\<close>

definition solicitud_1 :: solicitud where
  "solicitud_1 = \<lparr>req_usuarioId = Some 1, req_productoId = Some 1, req_cantidad = Some 2,
     req_metodoPago = Some ''tarjeta_credito''\<rparr>"

definition mundo_1 :: mundo where
  "mundo_1 = snd (crearPedido ''saga-1'' ''pedido-1'' solicitud_1 mundo_inicial)"

text \<open>The seeded world once saga \<open>saga-1\<close> holds two units of product 1.\<close>

definition mundo_reservado :: mundo where
  "mundo_reservado = snd (reservarStock ''saga-1'' (Some 1) (Some 2) mundo_inicial)"

text \<open>The same world after a second delivery of the same \<^verbatim>\<open>RESERVAR_INVENTARIO\<close>
  command (the queue delivers at least once): saga \<open>saga-1\<close> holds two reservations.\<close>

definition mundo_doble :: mundo where
  "mundo_doble = snd (reservarStock ''saga-1'' (Some 1) (Some 2) mundo_reservado)"

text \<open>The request of scenario 1 without its payment method.\<close>

definition solicitud_sin_metodo :: solicitud where
  "solicitud_sin_metodo = solicitud_1\<lparr>req_metodoPago := None\<rparr>"

text \<open>The request of scenario 1 from the principal of a token issued by
  \<^verbatim>\<open>POST /auth/login\<close>: the token's payload is \<^verbatim>\<open>{ userId, email, role }\<close>, so
  \<^verbatim>\<open>req.user.usuarioId\<close> is undefined.\<close>

definition solicitud_login :: solicitud where
  "solicitud_login = solicitud_1\<lparr>req_usuarioId := None\<rparr>"

text \<open>Two \<^verbatim>\<open>PROCESAR_PAGO\<close> payloads for two units of product 1: one by credit card, one
  with a method that is not in the allow-list.\<close>

definition pago_tarjeta :: payload where
  "pago_tarjeta = sin_campos\<lparr>productoId := Some 1, cantidad := Some 2,
     pedidoId := Some ''pedido-1'', metodoPago := Some ''tarjeta_credito''\<rparr>"

definition pago_bitcoin :: payload where
  "pago_bitcoin = pago_tarjeta\<lparr>metodoPago := Some ''bitcoin''\<rparr>"

text \<open>The world a compensation leaves when none of its five calls rejects.\<close>

definition compensado :: "string \<Rightarrow> string \<Rightarrow> mundo \<Rightarrow> mundo" where
  "compensado sid rz w =
     w\<lparr>pedidos := map (\<lambda>p. if pedido_saga_id p = sid then p\<lparr>pedido_estado := ''CANCELADA''\<rparr> else p)
                    (pedidos w),
       historial := historial w @ [(sid, ''COMPENSANDO''), (sid, ''CANCELADA'')],
       saga_events := saga_events w @
         [\<lparr>ev_sagaId = sid, ev_evento = ''COMPENSAR_PAGO'',
           ev_payload = sin_campos\<lparr>razon := Some rz\<rparr>\<rparr>,
          \<lparr>ev_sagaId = sid, ev_evento = ''LIBERAR_INVENTARIO'',
           ev_payload = sin_campos\<lparr>razon := Some rz\<rparr>\<rparr>],
       saga_estados := saga_estados w @
         [\<lparr>paso_saga_id = sid, paso = ''COMPENSACION'', paso_estado = ''COMPLETADO''\<rparr>]\<rparr>"

text \<open>The response of inventario to the reservation of scenario 1, and the world of
  scenario 1 with a store that rejects the next call, or the next two calls.\<close>

definition respuesta_reservado :: respuesta where
  "respuesta_reservado = \<lparr>rs_sagaId = ''saga-1'', rs_evento = ''INVENTARIO_RESERVADO'',
     rs_success = True, rs_payload = pago_tarjeta, rs_servicio = ''inventario''\<rparr>"

definition mundo_un_fallo :: mundo where
  "mundo_un_fallo = mundo_1\<lparr>fallos := [Some ''Connection terminated'']\<rparr>"

definition mundo_dos_fallos :: mundo where
  "mundo_dos_fallos =
     mundo_1\<lparr>fallos := [Some ''Connection terminated'', Some ''Connection terminated'']\<rparr>"

text \<open>Scenario 3 up to the cancellation: the stock is reserved, the payment is declined,
  the orchestrator compensates and pagos has handled \<^verbatim>\<open>COMPENSAR_PAGO\<close>; the next
  message of \<^verbatim>\<open>saga_events\<close> is the \<^verbatim>\<open>LIBERAR_INVENTARIO\<close> command. In
  \<open>mundo_liberar_falla\<close> the store rejects the next call.\<close>

definition mundo_cancelado :: mundo where
  "mundo_cancelado =
     ejecutar [EntregaInventario, EntregaPedidos, EntregaPagos ''tx-1'' False, EntregaPedidos,
               EntregaPagos ''tx-2'' True] mundo_1"

definition mundo_liberar_falla :: mundo where
  "mundo_liberar_falla = mundo_cancelado\<lparr>fallos := [Some ''Connection terminated'']\<rparr>"

definition evento_liberar :: evento_saga where
  "evento_liberar = \<lparr>ev_sagaId = ''saga-1'', ev_evento = ''LIBERAR_INVENTARIO'',
     ev_payload = sin_campos\<lparr>razon := Some ''PAGO_RECHAZADO''\<rparr>\<rparr>"

definition respuesta_liberar_fallido :: respuesta where
  "respuesta_liberar_fallido = \<lparr>rs_sagaId = ''saga-1'', rs_evento = ''INVENTARIO_RESERVADO'',
     rs_success = False, rs_payload = sin_campos\<lparr>error_msg := Some ''Connection terminated''\<rparr>,
     rs_servicio = ''inventario''\<rparr>"

text \<open>What the handler of one response writes to \<^verbatim>\<open>pedidos.estado\<close> when no call
  rejects: it depends on the event alone, never on the current status.\<close>

definition escrituras :: "respuesta \<Rightarrow> (string \<times> string) list" where
  "escrituras r =
     (if rs_evento r = ''INVENTARIO_RESERVADO'' then
        (if rs_success r then [(rs_sagaId r, ''INVENTARIO_RESERVADO'')]
         else [(rs_sagaId r, ''COMPENSANDO''), (rs_sagaId r, ''CANCELADA'')])
      else if rs_evento r = ''PAGO_PROCESADO'' then
        (if rs_success r then [(rs_sagaId r, ''PAGO_PROCESADO'')]
         else [(rs_sagaId r, ''COMPENSANDO''), (rs_sagaId r, ''CANCELADA'')])
      else if rs_evento r = ''PEDIDO_CONFIRMADO'' then [(rs_sagaId r, ''COMPLETADA'')]
      else [])"

text \<open>
  Responses delivered in protocol order for one saga. The stage \<open>k\<close> counts the forward
  steps done (0 after creation, 3 once completed) and is 4 after a compensation;
  \<open>avanzar\<close> is the stage after a response that is due at stage \<open>k\<close>, and \<open>None\<close>
  for a response that is not due (a duplicate, a late or an early one). Responses of
  other sagas and unknown event names are skipped. \<open>etapa_hist\<close> is the sequence of
  statuses written at each stage.
\<close>

definition avanzar :: "nat \<Rightarrow> respuesta \<Rightarrow> nat option" where
  "avanzar k r =
     (if rs_evento r = ''INVENTARIO_RESERVADO'' then
        (if rs_success r then (if k = 0 then Some 1 else None)
         else (if k < 3 then Some 4 else None))
      else if rs_evento r = ''PAGO_PROCESADO'' then
        (if rs_success r then (if k = 1 then Some 2 else None)
         else (if k < 3 then Some 4 else None))
      else if rs_evento r = ''PEDIDO_CONFIRMADO'' then (if k = 2 then Some 3 else None)
      else Some k)"

fun en_orden :: "string \<Rightarrow> nat \<Rightarrow> respuesta list \<Rightarrow> bool" where
  "en_orden sid k [] = True"
| "en_orden sid k (r # rs) =
     (if rs_sagaId r \<noteq> sid then en_orden sid k rs
      else (case avanzar k r of None \<Rightarrow> False | Some k' \<Rightarrow> en_orden sid k' rs))"

definition etapa_hist :: "nat \<Rightarrow> string list \<Rightarrow> bool" where
  "etapa_hist k h =
     (if k \<le> 3 then h = take (k + 1) adelante
      else h = take 1 adelante @ [''COMPENSANDO'', ''CANCELADA'']
         \<or> h = take 2 adelante @ [''COMPENSANDO'', ''CANCELADA'']
         \<or> h = take 3 adelante @ [''COMPENSANDO'', ''CANCELADA''])"

text \<open>The declined payment of scenario 3.\<close>

definition respuesta_pago_rechazado :: respuesta where
  "respuesta_pago_rechazado = \<lparr>rs_sagaId = ''saga-1'', rs_evento = ''PAGO_PROCESADO'',
     rs_success = False, rs_payload = pago_tarjeta, rs_servicio = ''pagos''\<rparr>"

text \<open>
  No confirmation in sight: no response named \<^verbatim>\<open>PEDIDO_CONFIRMADO\<close> is queued and no
  order is \<^verbatim>\<open>COMPLETADA\<close>. \<open>conserva m\<close> says that the call \<open>m\<close> keeps this.
\<close>

definition sin_confirmar :: "mundo \<Rightarrow> bool" where
  "sin_confirmar w =
     (''PEDIDO_CONFIRMADO'' \<notin> set (map rs_evento (pedidos_responses w))
      \<and> ''COMPLETADA'' \<notin> set (map pedido_estado (pedidos w)))"

definition conserva :: "'a io \<Rightarrow> bool" where
  "conserva m = (\<forall>w. sin_confirmar w \<longrightarrow> sin_confirmar (snd (m w)))"

text \<open>The schedule most favourable to scenario 1: every message goes to the consumer that
  handles it and the payment is approved.\<close>

definition plan_ideal :: "accion list" where
  "plan_ideal = [EntregaInventario, EntregaPedidos, EntregaPagos ''tx-1'' True, EntregaPedidos,
                 EntregaInventario, EntregaPagos ''tx-2'' True, EntregaPedidos]"

text \<open>Whether the restore of a release fits: the saga has no \<^verbatim>\<open>ACTIVA\<close> reservation, or
  the numbers of the first one are within \<^verbatim>\<open>INTEGER\<close> and so is the stock once the
  quantity is added back.\<close>

definition devolucion_cabe :: "string \<Rightarrow> mundo \<Rightarrow> bool" where
  "devolucion_cabe sid w =
     (case activas sid w of
        [] \<Rightarrow> True
      | r # _ \<Rightarrow>
          en_rango_integer (cantidad_reservada r) \<and> en_rango_integer (reserva_producto_id r)
          \<and> (case productos w (reserva_producto_id r) of
                None \<Rightarrow> True
              | Some s \<Rightarrow> en_rango_integer (s + cantidad_reservada r)))"

text \<open>Whether the store accepts the \<^verbatim>\<open>INSERT\<close> of \<^verbatim>\<open>procesarPago\<close>: the call is not
  rejected by the environment, the transaction id is new, and the amount (price times
  quantity) fits \<^verbatim>\<open>DECIMAL(10,2)\<close>.\<close>

definition insercion_aceptada :: "payload \<Rightarrow> string \<Rightarrow> mundo \<Rightarrow> bool" where
  "insercion_aceptada pl tid w =
     ((case fallos w of [] \<Rightarrow> True | None # _ \<Rightarrow> True | Some _ # _ \<Rightarrow> False)
      \<and> tid \<notin> set (map transaction_id (transacciones w))
      \<and> (case cantidad pl of
            None \<Rightarrow> True
          | Some c \<Rightarrow> en_rango_decimal_10_2 (obtenerPrecioProducto (productoId pl) * c)))"

text \<open>The payment of 300 units of product 1 by credit card (135000000), and the request
  of scenario 1 for minus 300 units.\<close>

definition pago_grande :: payload where
  "pago_grande = pago_tarjeta\<lparr>cantidad := Some 300\<rparr>"

definition solicitud_negativa :: solicitud where
  "solicitud_negativa = solicitud_1\<lparr>req_cantidad := Some (- 300)\<rparr>"

section \<open>Basic facts\<close>

lemmas io_defs = io_bind_def io_catch_def io_return_def io_throw_def

lemmas tx_defs = pool_connect_def sql_begin_def sql_commit_def rollback_def

lemmas rango_defs = en_rango_integer_def param_integer_def en_rango_decimal_10_2_def

lemma consulta_sin_fallos: "fallos w = [] \<Longrightarrow> consulta f w = f w"
  by (simp add: consulta_def)

lemma sentencia_sin_fallos: "fallos w = [] \<Longrightarrow> sentencia g w = (Inr (), g w)"
  by (simp add: sentencia_def consulta_def)

lemma fallos_vacios: "fallos v = [] \<Longrightarrow> v\<lparr>fallos := []\<rparr> = v"
  by (cases v) simp

section \<open>Inventario: reserve and release\<close>

lemmas reservar_defs = reservarStock_def io_defs tx_defs seleccionar_stock_def js_menor_def
  actualizar_stock_def insertar_reserva_def

lemma reservarStock_efecto:
  assumes "fallos w = []" and "productos w p = Some s" and "en_rango_integer p"
  shows "reservarStock sid (Some p) (Some n) w =
           (if s < n then (Inr False, w)
            else if en_rango_integer n \<and> en_rango_integer (s - n) then
              (Inr True,
               w\<lparr>productos := (productos w)(p \<mapsto> s - n),
                 reservas_temporales := reservas_temporales w @
                   [\<lparr>reserva_saga_id = sid, reserva_producto_id = p, cantidad_reservada = n,
                     expira_en = reloj w + 600000, reserva_estado = ''ACTIVA''\<rparr>]\<rparr>)
            else
              (Inl (Error (if en_rango_integer n then ''integer out of range''
                           else ''value out of range for type integer'')), w))"
  using assms
  by (auto simp add: reservar_defs sentencia_sin_fallos consulta_sin_fallos param_integer_def)

text \<open>Whatever calls reject, a reservation either returns \<^verbatim>\<open>true\<close> with its whole effect
  committed, or does not return \<^verbatim>\<open>true\<close> and leaves both inventory tables as they
  were.\<close>

lemma reservarStock_atomico:
  assumes "productos w p = Some s"
  shows "fst (reservarStock sid (Some p) (Some n) w) = Inr True
           \<and> tablas_inventario (snd (reservarStock sid (Some p) (Some n) w)) =
               ((productos w)(p \<mapsto> s - n),
                reservas_temporales w @
                  [\<lparr>reserva_saga_id = sid, reserva_producto_id = p, cantidad_reservada = n,
                    expira_en = reloj w + 600000, reserva_estado = ''ACTIVA''\<rparr>])
         \<or> fst (reservarStock sid (Some p) (Some n) w) \<noteq> Inr True
           \<and> tablas_inventario (snd (reservarStock sid (Some p) (Some n) w)) = tablas_inventario w"
  using assms
  by (auto simp add: reservar_defs sentencia_def consulta_def tablas_inventario_def
      split: list.splits option.splits)

text \<open>A reservation that meets no fault keeps, for every product, the sum of the available
  stock and the \<^verbatim>\<open>ACTIVA\<close> quantities.\<close>

lemma reservarStock_conserva:
  assumes "fallos w = []" and "productos w p = Some s" and "en_rango_integer p"
  shows "stock_total (snd (reservarStock sid (Some p) (Some n) w)) q = stock_total w q"
  using assms
  by (simp add: reservarStock_efecto [OF assms] stock_total_def reservado_activo_def)

text \<open>
  C5, as stated, fails on the code. Product 1 has 10 units and the request is for
  -2147483648 units, a quantity that the order table accepts. The stock is not less than
  the quantity, so the call goes on to the \<^verbatim>\<open>UPDATE\<close>, whose result 2147483658 is
  outside \<^verbatim>\<open>INTEGER\<close>: the call raises instead of decrementing, and leaves the world as
  it was.
\<close>

theorem reservarStock_fuera_de_rango:
  "productos mundo_inicial 1 = Some 10
   \<and> \<not> (10 :: int) < - 2147483648
   \<and> reservarStock ''saga-1'' (Some 1) (Some (- 2147483648)) mundo_inicial
       = (Inl (Error ''integer out of range''), mundo_inicial)"
  using reservarStock_efecto [of mundo_inicial 1 10 "''saga-1''" "- 2147483648"]
  by (simp add: mundo_inicial_def en_rango_integer_def)

text \<open>
  C5, amended. Reserve atomicity and no negative stock, for a product that exists with
  available stock \<open>s\<close>. When no call is rejected by the environment: a request for more
  than \<open>s\<close> reports failure and leaves the whole world (stock and reservations included)
  as it was; any other request whose quantity and resulting stock \<open>s - n\<close> fit the
  \<^verbatim>\<open>INTEGER\<close> column (every request for a quantity from 0 to \<open>s\<close> does) reports
  success, lowers the stock of that product by exactly the quantity and appends one
  \<^verbatim>\<open>ACTIVA\<close> reservation that expires 10 minutes (600000 ms) after the current time;
  a request that does not fit raises and leaves the world as it was. In each case a stock
  that was not negative is not negative afterwards. And whatever calls are rejected, the
  call either returns success with exactly that effect on the two inventory tables, or
  does not return success and leaves both tables as they were.
\<close>

theorem reservarStock_contract:
  assumes "productos w p = Some s" and "en_rango_integer p"
  shows "(fallos w = [] \<longrightarrow>
            reservarStock sid (Some p) (Some n) w =
              (if s < n then (Inr False, w)
               else if en_rango_integer n \<and> en_rango_integer (s - n) then
                 (Inr True,
                  w\<lparr>productos := (productos w)(p \<mapsto> s - n),
                    reservas_temporales := reservas_temporales w @
                      [\<lparr>reserva_saga_id = sid, reserva_producto_id = p, cantidad_reservada = n,
                        expira_en = reloj w + 600000, reserva_estado = ''ACTIVA''\<rparr>]\<rparr>)
               else
                 (Inl (Error (if en_rango_integer n then ''integer out of range''
                              else ''value out of range for type integer'')), w)))
         \<and> (fallos w = [] \<and> 0 \<le> s \<longrightarrow>
              (\<forall>q. productos (snd (reservarStock sid (Some p) (Some n) w)) p = Some q \<longrightarrow> 0 \<le> q))
         \<and> (0 \<le> n \<and> n \<le> s \<and> en_rango_integer s \<longrightarrow>
              en_rango_integer n \<and> en_rango_integer (s - n))
         \<and> (fst (reservarStock sid (Some p) (Some n) w) = Inr True
               \<and> tablas_inventario (snd (reservarStock sid (Some p) (Some n) w)) =
                   ((productos w)(p \<mapsto> s - n),
                    reservas_temporales w @
                      [\<lparr>reserva_saga_id = sid, reserva_producto_id = p, cantidad_reservada = n,
                        expira_en = reloj w + 600000, reserva_estado = ''ACTIVA''\<rparr>])
             \<or> fst (reservarStock sid (Some p) (Some n) w) \<noteq> Inr True
               \<and> tablas_inventario (snd (reservarStock sid (Some p) (Some n) w))
                   = tablas_inventario w)"
proof -
  have a: "fallos w = [] \<longrightarrow>
            reservarStock sid (Some p) (Some n) w =
              (if s < n then (Inr False, w)
               else if en_rango_integer n \<and> en_rango_integer (s - n) then
                 (Inr True,
                  w\<lparr>productos := (productos w)(p \<mapsto> s - n),
                    reservas_temporales := reservas_temporales w @
                      [\<lparr>reserva_saga_id = sid, reserva_producto_id = p, cantidad_reservada = n,
                        expira_en = reloj w + 600000, reserva_estado = ''ACTIVA''\<rparr>]\<rparr>)
               else
                 (Inl (Error (if en_rango_integer n then ''integer out of range''
                              else ''value out of range for type integer'')), w))"
    using reservarStock_efecto [OF _ assms] by blast
  have b: "fallos w = [] \<and> 0 \<le> s \<longrightarrow>
      (\<forall>q. productos (snd (reservarStock sid (Some p) (Some n) w)) p = Some q \<longrightarrow> 0 \<le> q)"
    using a assms(1) by (auto split: if_splits)
  have c: "0 \<le> n \<and> n \<le> s \<and> en_rango_integer s \<longrightarrow>
      en_rango_integer n \<and> en_rango_integer (s - n)"
    by (auto simp add: en_rango_integer_def)
  show ?thesis
    using a b c reservarStock_atomico [OF assms(1), of sid n] by blast
qed

lemma mundo_inicial_fallo_insert:
  "fst (reservarStock ''saga-3'' (Some 1) (Some 2)
          (mundo_inicial\<lparr>fallos := [None, None, None, None, Some ''Connection terminated'']\<rparr>))
     = Inl (Error ''Connection terminated'')"
  by code_simp

theorem reservarStock_contract_witness:
  "productos mundo_inicial 1 = Some 10 \<and> en_rango_integer 1 \<and> fallos mundo_inicial = []
   \<and> reservarStock ''saga-1'' (Some 1) (Some 2) mundo_inicial =
       (Inr True,
        mundo_inicial\<lparr>productos := (productos mundo_inicial)(1 \<mapsto> 8),
          reservas_temporales :=
            [\<lparr>reserva_saga_id = ''saga-1'', reserva_producto_id = 1, cantidad_reservada = 2,
              expira_en = 600000, reserva_estado = ''ACTIVA''\<rparr>]\<rparr>)
   \<and> reservarStock ''saga-2'' (Some 1) (Some 999) mundo_inicial = (Inr False, mundo_inicial)
   \<and> tablas_inventario (snd (reservarStock ''saga-3'' (Some 1) (Some 2)
        (mundo_inicial\<lparr>fallos := [None, None, None, None, Some ''Connection terminated'']\<rparr>)))
       = tablas_inventario mundo_inicial"
proof -
  let ?v = "mundo_inicial\<lparr>fallos := [None, None, None, None, Some ''Connection terminated'']\<rparr>"
  have h: "productos mundo_inicial 1 = Some 10" "en_rango_integer 1" "fallos mundo_inicial = []"
    "productos ?v 1 = Some 10" "tablas_inventario ?v = tablas_inventario mundo_inicial"
    by (simp_all add: mundo_inicial_def en_rango_integer_def tablas_inventario_def)
  show ?thesis
    using reservarStock_contract [OF h(1,2), of "''saga-1''" 2, THEN conjunct1]
      reservarStock_contract [OF h(1,2), of "''saga-2''" 999, THEN conjunct1]
      reservarStock_contract [OF h(4,2), of "''saga-3''" 2] mundo_inicial_fallo_insert h
    by (simp add: mundo_inicial_def en_rango_integer_def)
qed

lemma activas_marcadas:
  "filter (\<lambda>r. reserva_saga_id r = sid \<and> reserva_estado r = ''ACTIVA'')
     (map (\<lambda>r. if reserva_saga_id r = sid then r\<lparr>reserva_estado := ''LIBERADA''\<rparr> else r) rs) = []"
  by (induction rs) auto

lemmas liberar_defs = liberarStock_def io_defs tx_defs seleccionar_reservas_activas_def
  activas_def actualizar_stock_def marcar_liberadas_def

lemma liberarStock_sin_activas:
  "fallos w = [] \<Longrightarrow> activas sid w = [] \<Longrightarrow> liberarStock sid w = (Inr (), w)"
  by (simp add: liberar_defs sentencia_sin_fallos consulta_sin_fallos)

lemma liberarStock_sin_activas_tablas:
  "activas sid w = [] \<Longrightarrow> tablas_inventario (snd (liberarStock sid w)) = tablas_inventario w"
  by (auto simp add: liberar_defs sentencia_def consulta_def tablas_inventario_def
      split: list.splits option.splits)

lemma liberarStock_sin_fallos:
  "fallos w = [] \<Longrightarrow> devolucion_cabe sid w \<Longrightarrow>
     fst (liberarStock sid w) = Inr () \<and> fallos (snd (liberarStock sid w)) = []
     \<and> activas sid (snd (liberarStock sid w)) = []"
  by (auto simp add: liberar_defs devolucion_cabe_def param_integer_def sentencia_sin_fallos
      consulta_sin_fallos activas_marcadas split: list.splits option.splits)

lemma liberarStock_no_cabe:
  "fallos w = [] \<Longrightarrow> \<not> devolucion_cabe sid w \<Longrightarrow>
     fst (liberarStock sid w) \<noteq> Inr () \<and> snd (liberarStock sid w) = w"
  by (auto simp add: liberar_defs devolucion_cabe_def param_integer_def sentencia_sin_fallos
      consulta_sin_fallos split: list.splits option.splits)

text \<open>Whatever calls reject, a release either commits its whole effect or leaves both
  inventory tables as they were.\<close>

lemma liberarStock_atomico:
  "tablas_inventario (snd (liberarStock sid w)) = tablas_inventario w
   \<or> tablas_inventario (snd (liberarStock sid w)) = tablas_inventario (liberado sid w)"
  unfolding liberado_def tablas_inventario_def
  by (auto simp add: liberar_defs sentencia_def consulta_def split: list.splits option.splits)

lemma liberado_tablas:
  "tablas_inventario w = tablas_inventario w' \<Longrightarrow>
   tablas_inventario (liberado sid w) = tablas_inventario (liberado sid w')"
  unfolding liberado_def tablas_inventario_def
  by (auto simp add: liberar_defs sentencia_def consulta_def split: list.splits option.splits)

lemma liberado_liberado:
  "tablas_inventario (liberado sid (liberado sid w)) = tablas_inventario (liberado sid w)"
proof -
  let ?v = "w\<lparr>fallos := []\<rparr>"
  have f: "fallos ?v = []" by simp
  show ?thesis
  proof (cases "devolucion_cabe sid ?v")
    case True
    have 1: "fallos (liberado sid w) = []" "activas sid (liberado sid w) = []"
      using liberarStock_sin_fallos [OF f True] by (simp_all add: liberado_def)
    have "liberado sid (liberado sid w) = snd (liberarStock sid (liberado sid w))"
      using fallos_vacios [OF 1(1)] by (simp add: liberado_def [of sid "liberado sid w"])
    then show ?thesis using liberarStock_sin_activas [OF 1] by simp
  next
    case False
    have "liberado sid w = ?v"
      using liberarStock_no_cabe [OF f False] by (simp add: liberado_def)
    then show ?thesis by (simp add: liberado_def)
  qed
qed

text \<open>
  C6. Release idempotence. A release for a saga that has no \<^verbatim>\<open>ACTIVA\<close> reservation
  returns normally and changes nothing when no call rejects, and never changes the
  inventory tables whatever rejects. Two releases in a row for the same saga: without
  faults the second one changes nothing in the inventory tables; it returns normally,
  as the first one does, when the restore fits the stock column, and when the restore
  does not fit the release raises and leaves the world as it was. Whatever calls reject,
  the inventory tables after the two releases are either untouched or exactly those left
  by one release, so the quantity is restored at most once.
\<close>

theorem liberarStock_idempotente:
  "(fallos w = [] \<and> activas sid w = [] \<longrightarrow> liberarStock sid w = (Inr (), w))
   \<and> (activas sid w = [] \<longrightarrow> tablas_inventario (snd (liberarStock sid w)) = tablas_inventario w)
   \<and> (fallos w = [] \<and> devolucion_cabe sid w \<longrightarrow>
        fst (liberarStock sid w) = Inr ()
        \<and> liberarStock sid (snd (liberarStock sid w)) = (Inr (), snd (liberarStock sid w)))
   \<and> (fallos w = [] \<and> \<not> devolucion_cabe sid w \<longrightarrow>
        fst (liberarStock sid w) \<noteq> Inr () \<and> snd (liberarStock sid w) = w)
   \<and> (fallos w = [] \<longrightarrow>
        tablas_inventario (snd (liberarStock sid (snd (liberarStock sid w))))
          = tablas_inventario (snd (liberarStock sid w)))
   \<and> (tablas_inventario (snd (liberarStock sid (snd (liberarStock sid w)))) = tablas_inventario w
      \<or> tablas_inventario (snd (liberarStock sid (snd (liberarStock sid w))))
          = tablas_inventario (liberado sid w))"
proof -
  let ?w1 = "snd (liberarStock sid w)"
  have c: "fallos w = [] \<and> devolucion_cabe sid w \<longrightarrow>
        fst (liberarStock sid w) = Inr () \<and> liberarStock sid ?w1 = (Inr (), ?w1)"
    using liberarStock_sin_fallos [of w sid] liberarStock_sin_activas [of ?w1 sid] by simp
  have d: "tablas_inventario (snd (liberarStock sid ?w1)) = tablas_inventario w
      \<or> tablas_inventario (snd (liberarStock sid ?w1)) = tablas_inventario (liberado sid w)"
    using liberarStock_atomico [of sid w] liberarStock_atomico [of sid ?w1]
      liberado_tablas [of ?w1 w sid] liberado_tablas [of ?w1 "liberado sid w" sid]
      liberado_liberado [of sid w]
    by metis
  have e: "fallos w = [] \<longrightarrow>
      tablas_inventario (snd (liberarStock sid ?w1)) = tablas_inventario ?w1"
  proof (cases "devolucion_cabe sid w")
    case True
    then show ?thesis using c by auto
  next
    case False
    then show ?thesis using liberarStock_no_cabe [of w sid] by auto
  qed
  show ?thesis
    using liberarStock_sin_activas [of w sid] liberarStock_sin_activas_tablas [of sid w] c d e
      liberarStock_no_cabe [of w sid]
    by blast
qed

lemma mundo_reservado_liberado:
  "fallos mundo_reservado = []"
  "devolucion_cabe ''saga-1'' mundo_reservado"
  "productos (snd (liberarStock ''saga-1'' mundo_reservado)) 1 = Some 10"
  "map reserva_estado (reservas_temporales (snd (liberarStock ''saga-1'' mundo_reservado)))
     = [''LIBERADA'']"
  by code_simp+

theorem liberarStock_idempotente_witness:
  "fallos mundo_inicial = [] \<and> activas ''saga-9'' mundo_inicial = []
   \<and> liberarStock ''saga-9'' mundo_inicial = (Inr (), mundo_inicial)
   \<and> fallos mundo_reservado = []
   \<and> productos mundo_reservado 1 = Some 8
   \<and> productos (snd (liberarStock ''saga-1'' mundo_reservado)) 1 = Some 10
   \<and> productos (snd (liberarStock ''saga-1'' (snd (liberarStock ''saga-1'' mundo_reservado)))) 1
       = Some 10"
proof -
  have i: "fallos mundo_inicial = []" "activas ''saga-9'' mundo_inicial = []"
    by (simp_all add: mundo_inicial_def activas_def)
  have r: "productos mundo_reservado 1 = Some 8"
    by code_simp
  show ?thesis
    using liberarStock_idempotente [of mundo_inicial "''saga-9''"]
      liberarStock_idempotente [of mundo_reservado "''saga-1''"]
      i r mundo_reservado_liberado
    by simp
qed

section \<open>Inventario: the expiry sweep\<close>

text \<open>When every reservation of a product expired a minute ago or earlier, a sweep that
  meets no fault leaves none of them \<^verbatim>\<open>ACTIVA\<close> and does not touch the stock of the
  product.\<close>

lemma filtro_marcadas_vacio:
  assumes "\<forall>r \<in> set rs. reserva_producto_id r = p \<longrightarrow> expira_en r \<le> t - 60000"
  shows "filter (\<lambda>rt. reserva_producto_id rt = p \<and> reserva_estado rt = ''EXPIRADA''
                      \<and> t - 60000 < expira_en rt)
           (map (\<lambda>r. if expira_en r < t \<and> reserva_estado r = ''ACTIVA''
                     then r\<lparr>reserva_estado := ''EXPIRADA''\<rparr> else r) rs) = []"
  using assms by (induction rs) auto

lemma barrido_vencidas_no_devuelve:
  assumes "fallos w = []"
    and "\<forall>r \<in> set (reservas_temporales w).
           reserva_producto_id r = p \<longrightarrow> expira_en r \<le> reloj w - 60000"
  shows "productos (snd (limpiarReservasExpiradas w)) p = productos w p
       \<and> (\<forall>r \<in> set (reservas_temporales (snd (limpiarReservasExpiradas w))).
              reserva_producto_id r = p \<longrightarrow> reserva_estado r \<noteq> ''ACTIVA'')"
  using assms filtro_marcadas_vacio [OF assms(2)]
  by (auto simp add: limpiarReservasExpiradas_def io_defs marcar_expiradas_def
      devolver_stock_expiradas_def stock_devuelto_def reservas_a_devolver_def
      consulta_sin_fallos split: option.splits)

text \<open>A release that meets no fault keeps the sum of available stock and \<^verbatim>\<open>ACTIVA\<close>
  quantities when the saga holds at most one \<^verbatim>\<open>ACTIVA\<close> reservation.\<close>

lemma activo_tras_liberar:
  "sum_list (map cantidad_reservada
     (filter (\<lambda>r. reserva_producto_id r = q \<and> reserva_estado r = ''ACTIVA'')
        (map (\<lambda>r. if reserva_saga_id r = sid then r\<lparr>reserva_estado := ''LIBERADA''\<rparr> else r) rs)))
   = sum_list (map cantidad_reservada
       (filter (\<lambda>r. reserva_producto_id r = q \<and> reserva_estado r = ''ACTIVA'') rs))
     - sum_list (map cantidad_reservada
         (filter (\<lambda>r. reserva_producto_id r = q)
            (filter (\<lambda>r. reserva_saga_id r = sid \<and> reserva_estado r = ''ACTIVA'') rs)))"
  by (induction rs) auto

lemma liberarStock_conserva:
  assumes "fallos w = []" and "length (activas sid w) \<le> 1"
  shows "stock_total (snd (liberarStock sid w)) q = stock_total w q"
proof (cases "devolucion_cabe sid w")
  case False
  then show ?thesis using liberarStock_no_cabe [OF assms(1)] by simp
next
  case True
  show ?thesis
  proof (cases "activas sid w")
    case Nil
    then show ?thesis using liberarStock_sin_activas [OF assms(1)] by simp
  next
    case (Cons r rest)
    then have a: "activas sid w = [r]" using assms(2) by simp
    then have f: "filter (\<lambda>r. reserva_saga_id r = sid \<and> reserva_estado r = ''ACTIVA'')
        (reservas_temporales w) = [r]"
      by (simp add: activas_def)
    show ?thesis
      using assms(1) f True a activo_tras_liberar [of q sid "reservas_temporales w"]
      by (auto simp add: liberarStock_def io_defs tx_defs seleccionar_reservas_activas_def
          actualizar_stock_def marcar_liberadas_def sentencia_sin_fallos consulta_sin_fallos
          stock_total_def reservado_activo_def devolucion_cabe_def param_integer_def
          split: option.splits)
  qed
qed

text \<open>
  C2. Expiry reclamation, on the code. Saga \<open>saga-1\<close> reserved two of the ten units of
  product 1 at time 0, so the reservation expires at 600000 ms and the stock is 8. A
  sweep that runs at 720000 ms, two minutes after the expiry, marks the reservation
  \<^verbatim>\<open>EXPIRADA\<close> and leaves the stock at 8; the next sweep, five minutes later, leaves it
  at 8 as well: the two units are never given back. A sweep that runs at 630000 ms,
  within one minute of the expiry, does give them back (stock 10), once.
\<close>

theorem barrido_fuera_de_ventana:
  "map reserva_estado (reservas_temporales mundo_reservado) = [''ACTIVA'']
   \<and> map expira_en (reservas_temporales mundo_reservado) = [600000]
   \<and> productos mundo_reservado 1 = Some 8
   \<and> map reserva_estado (reservas_temporales (ejecutar [Tic 720000, Barrido] mundo_reservado))
       = [''EXPIRADA'']
   \<and> productos (ejecutar [Tic 720000, Barrido] mundo_reservado) 1 = Some 8
   \<and> productos (ejecutar [Tic 720000, Barrido, Tic 300000, Barrido] mundo_reservado) 1 = Some 8
   \<and> productos (ejecutar [Tic 630000, Barrido] mundo_reservado) 1 = Some 10
   \<and> productos (ejecutar [Tic 630000, Barrido, Tic 300000, Barrido] mundo_reservado) 1 = Some 10"
  by (intro conjI; code_simp)

text \<open>
  C3. Stock conservation, on the code. For product 1 the sum of the available stock and
  the \<^verbatim>\<open>ACTIVA\<close> quantities is 10 in the seeded world and after the reservation of
  \<open>saga-1\<close>; after the sweep of 720000 ms it is 8, with no sale confirmed. The release
  loses stock too when a saga holds two \<^verbatim>\<open>ACTIVA\<close> reservations: the sum is 10 before
  the release and 8 after it, both reservations being \<^verbatim>\<open>LIBERADA\<close>.
\<close>

theorem conservacion_rota:
  "stock_total mundo_inicial 1 = Some 10
   \<and> stock_total mundo_reservado 1 = Some 10
   \<and> stock_total (ejecutar [Tic 720000, Barrido] mundo_reservado) 1 = Some 8
   \<and> stock_total mundo_doble 1 = Some 10
   \<and> stock_total (snd (liberarStock ''saga-1'' mundo_doble)) 1 = Some 8
   \<and> map reserva_estado (reservas_temporales (snd (liberarStock ''saga-1'' mundo_doble)))
       = [''LIBERADA'', ''LIBERADA'']"
  by (intro conjI; code_simp)


section \<open>Pagos: processing a payment\<close>

lemma procesarPago_metodo_invalido:
  "metodoPago pl \<notin> Some ` set metodosValidos \<Longrightarrow> procesarPago sid pl tid ex w = (Inr False, w)"
  by (auto simp add: procesarPago_def io_defs split: option.splits)

lemma procesarPago_aceptada:
  assumes "metodoPago pl = Some m" and "m \<in> set metodosValidos"
    and "insercion_aceptada pl tid w"
  shows "procesarPago sid pl tid ex w =
     (Inr ex, w\<lparr>fallos := tl (fallos w),
        transacciones := transacciones w @
        [\<lparr>transaction_id = tid, trans_saga_id = sid,
          monto = map_option (\<lambda>c. obtenerPrecioProducto (productoId pl) * c) (cantidad pl),
          metodo_pago = m, trans_estado = (if ex then ''APROBADA'' else ''RECHAZADA''),
          referencia_externa = reloj w\<rparr>]\<rparr>)"
proof (cases "fallos w")
  case Nil
  then show ?thesis using assms fallos_vacios [OF Nil]
    by (cases "cantidad pl")
       (simp_all add: procesarPago_def io_defs insertar_transaccion_def consulta_def
          insercion_aceptada_def Let_def)
next
  case (Cons f fs)
  then show ?thesis using assms
    by (cases "cantidad pl"; cases f)
       (simp_all add: procesarPago_def io_defs insertar_transaccion_def consulta_def
          insercion_aceptada_def Let_def)
qed

lemma procesarPago_rechazada:
  assumes "metodoPago pl = Some m" and "m \<in> set metodosValidos"
    and "\<not> insercion_aceptada pl tid w"
  shows "procesarPago sid pl tid ex w = (Inr False, w\<lparr>fallos := tl (fallos w)\<rparr>)"
proof (cases "fallos w")
  case Nil
  then show ?thesis using assms fallos_vacios [OF Nil]
    by (cases "cantidad pl")
       (auto simp add: procesarPago_def io_defs insertar_transaccion_def consulta_def
          insercion_aceptada_def Let_def)
next
  case (Cons f fs)
  then show ?thesis using assms
    by (cases "cantidad pl"; cases f)
       (auto simp add: procesarPago_def io_defs insertar_transaccion_def consulta_def
          insercion_aceptada_def Let_def)
qed

lemma procesarEventoPago_informa:
  assumes "fallos w = []" and "ev_evento event = ''PROCESAR_PAGO''"
  shows "procesarEventoPago event tid ex w =
     (Inr (), (snd (procesarPago (ev_sagaId event) (ev_payload event) tid ex w))
        \<lparr>pedidos_responses := pedidos_responses w @
          [\<lparr>rs_sagaId = ev_sagaId event, rs_evento = ''PAGO_PROCESADO'',
            rs_success = (metodoPago (ev_payload event) \<in> Some ` set metodosValidos
                          \<and> insercion_aceptada (ev_payload event) tid w \<and> ex),
            rs_payload = ev_payload event, rs_servicio = ''pagos''\<rparr>]\<rparr>)"
proof (cases "metodoPago (ev_payload event) \<in> Some ` set metodosValidos")
  case False
  then show ?thesis using assms
    by (simp add: procesarEventoPago_def procesarPago_metodo_invalido io_defs enviarRespuesta_def
        sentencia_sin_fallos)
next
  case True
  then obtain m where m: "metodoPago (ev_payload event) = Some m" "m \<in> set metodosValidos"
    by auto
  show ?thesis
  proof (cases "insercion_aceptada (ev_payload event) tid w")
    case a: True
    show ?thesis using True assms a
      by (simp add: procesarEventoPago_def procesarPago_aceptada [OF m a]
          io_defs enviarRespuesta_def sentencia_sin_fallos)
  next
    case a: False
    show ?thesis using True assms a
      by (simp add: procesarEventoPago_def procesarPago_rechazada [OF m a]
          io_defs enviarRespuesta_def sentencia_sin_fallos)
  qed
qed

text \<open>
  C9, as stated, fails on the code. The method is in the allow-list, the draw approves and
  no call is rejected by the environment, but the payment is for 300 units of product 1:
  the amount 135000000 does not fit \<^verbatim>\<open>monto DECIMAL(10,2)\<close>, the \<^verbatim>\<open>INSERT\<close>
  raises, the \<^verbatim>\<open>catch\<close> of \<^verbatim>\<open>procesarPago\<close> returns \<^verbatim>\<open>false\<close>, and no row is
  persisted. The same happens on the seeded data, from the request on: an order for
  minus 300 units of product 1 is accepted and reserved, and its payment persists no row
  and is reported as failed.
\<close>

theorem procesarPago_desborda:
  "metodoPago pago_grande = Some ''tarjeta_credito''
   \<and> ''tarjeta_credito'' \<in> set metodosValidos
   \<and> fallos mundo_inicial = []
   \<and> procesarPago ''saga-1'' pago_grande ''tx-1'' True mundo_inicial = (Inr False, mundo_inicial)
   \<and> fst (crearPedido ''saga-1'' ''pedido-1'' solicitud_negativa mundo_inicial)
       = Http201 ''pedido-1'' ''saga-1'' ''INICIADA''
   \<and> transacciones (ejecutar [EntregaInventario, EntregaPedidos, EntregaPagos ''tx-1'' True]
        (snd (crearPedido ''saga-1'' ''pedido-1'' solicitud_negativa mundo_inicial))) = []
   \<and> map (\<lambda>r. (rs_evento r, rs_success r))
        (pedidos_responses (ejecutar [EntregaInventario, EntregaPedidos, EntregaPagos ''tx-1'' True]
           (snd (crearPedido ''saga-1'' ''pedido-1'' solicitud_negativa mundo_inicial))))
       = [(''PAGO_PROCESADO'', False)]"
proof -
  have h: "metodoPago pago_grande = Some ''tarjeta_credito''"
    "''tarjeta_credito'' \<in> set metodosValidos" "fallos mundo_inicial = []"
    "\<not> insercion_aceptada pago_grande ''tx-1'' mundo_inicial"
    by (simp_all add: pago_grande_def pago_tarjeta_def sin_campos_def metodosValidos_def
        mundo_inicial_def insercion_aceptada_def obtenerPrecioProducto_def
        en_rango_decimal_10_2_def)
  have a: "procesarPago ''saga-1'' pago_grande ''tx-1'' True mundo_inicial
             = (Inr False, mundo_inicial)"
    using procesarPago_rechazada [OF h(1,2,4), of "''saga-1''" True] fallos_vacios [OF h(3)] h(3)
    by simp
  have b: "fst (crearPedido ''saga-1'' ''pedido-1'' solicitud_negativa mundo_inicial)
       = Http201 ''pedido-1'' ''saga-1'' ''INICIADA''"
    "transacciones (ejecutar [EntregaInventario, EntregaPedidos, EntregaPagos ''tx-1'' True]
        (snd (crearPedido ''saga-1'' ''pedido-1'' solicitud_negativa mundo_inicial))) = []"
    "map (\<lambda>r. (rs_evento r, rs_success r))
        (pedidos_responses (ejecutar [EntregaInventario, EntregaPedidos, EntregaPagos ''tx-1'' True]
           (snd (crearPedido ''saga-1'' ''pedido-1'' solicitud_negativa mundo_inicial))))
       = [(''PAGO_PROCESADO'', False)]"
    by code_simp+
  show ?thesis using h(1,2,3) a b by simp
qed

text \<open>
  C9, amended. Payment processing contract. A payload whose method is absent or outside
  the allow-list is rejected (\<^verbatim>\<open>false\<close>) and the world is left as it was, whatever the
  environment. For a method of the allow-list: when the store accepts the \<^verbatim>\<open>INSERT\<close>
  (the call is not rejected, the transaction id is new and the amount fits
  \<^verbatim>\<open>DECIMAL(10,2)\<close>), exactly one row is appended to \<^verbatim>\<open>transacciones\<close>, its status
  is \<^verbatim>\<open>APROBADA\<close> when the draw approved and \<^verbatim>\<open>RECHAZADA\<close> otherwise, and the draw is
  the value returned; when the store does not accept it, no row is persisted and
  \<^verbatim>\<open>false\<close> is returned. When no call rejects, the handler of \<^verbatim>\<open>PROCESAR_PAGO\<close> then
  sends the orchestrator one \<^verbatim>\<open>PAGO_PROCESADO\<close> response whose \<^verbatim>\<open>success\<close> is the
  value returned.
\<close>

theorem procesarPago_contract:
  "(metodoPago pl \<notin> Some ` set metodosValidos \<longrightarrow>
      procesarPago sid pl tid ex w = (Inr False, w))
   \<and> (metodoPago pl = Some m \<and> m \<in> set metodosValidos \<and> insercion_aceptada pl tid w \<longrightarrow>
      procesarPago sid pl tid ex w =
        (Inr ex, w\<lparr>fallos := tl (fallos w),
           transacciones := transacciones w @
           [\<lparr>transaction_id = tid, trans_saga_id = sid,
             monto = map_option (\<lambda>c. obtenerPrecioProducto (productoId pl) * c) (cantidad pl),
             metodo_pago = m, trans_estado = (if ex then ''APROBADA'' else ''RECHAZADA''),
             referencia_externa = reloj w\<rparr>]\<rparr>))
   \<and> (metodoPago pl = Some m \<and> m \<in> set metodosValidos \<and> \<not> insercion_aceptada pl tid w \<longrightarrow>
      procesarPago sid pl tid ex w = (Inr False, w\<lparr>fallos := tl (fallos w)\<rparr>))
   \<and> (fallos w = [] \<and> ev_evento event = ''PROCESAR_PAGO'' \<longrightarrow>
      procesarEventoPago event tid ex w =
        (Inr (), (snd (procesarPago (ev_sagaId event) (ev_payload event) tid ex w))
           \<lparr>pedidos_responses := pedidos_responses w @
             [\<lparr>rs_sagaId = ev_sagaId event, rs_evento = ''PAGO_PROCESADO'',
               rs_success = (metodoPago (ev_payload event) \<in> Some ` set metodosValidos
                             \<and> insercion_aceptada (ev_payload event) tid w \<and> ex),
               rs_payload = ev_payload event, rs_servicio = ''pagos''\<rparr>]\<rparr>))"
  using procesarPago_metodo_invalido [of pl sid tid ex w]
    procesarPago_aceptada [of pl m tid w sid ex]
    procesarPago_rechazada [of pl m tid w sid ex]
    procesarEventoPago_informa [of w event tid ex]
  by blast

theorem procesarPago_contract_witness:
  "metodoPago pago_bitcoin \<notin> Some ` set metodosValidos
   \<and> procesarPago ''saga-1'' pago_bitcoin ''tx-1'' True mundo_inicial = (Inr False, mundo_inicial)
   \<and> fallos mundo_inicial = [] \<and> metodoPago pago_tarjeta = Some ''tarjeta_credito''
   \<and> ''tarjeta_credito'' \<in> set metodosValidos
   \<and> insercion_aceptada pago_tarjeta ''tx-1'' mundo_inicial
   \<and> procesarPago ''saga-1'' pago_tarjeta ''tx-1'' False mundo_inicial =
       (Inr False, mundo_inicial\<lparr>transacciones :=
          [\<lparr>transaction_id = ''tx-1'', trans_saga_id = ''saga-1'', monto = Some 900000,
            metodo_pago = ''tarjeta_credito'', trans_estado = ''RECHAZADA'',
            referencia_externa = 0\<rparr>]\<rparr>)
   \<and> \<not> insercion_aceptada pago_tarjeta ''tx-1''
         (mundo_inicial\<lparr>fallos := [Some ''Connection terminated'']\<rparr>)
   \<and> procesarPago ''saga-1'' pago_tarjeta ''tx-1'' True
         (mundo_inicial\<lparr>fallos := [Some ''Connection terminated'']\<rparr>)
       = (Inr False, mundo_inicial)
   \<and> pedidos_responses (snd (procesarEventoPago
        \<lparr>ev_sagaId = ''saga-1'', ev_evento = ''PROCESAR_PAGO'', ev_payload = pago_tarjeta\<rparr>
        ''tx-1'' True mundo_inicial)) =
       [\<lparr>rs_sagaId = ''saga-1'', rs_evento = ''PAGO_PROCESADO'', rs_success = True,
         rs_payload = pago_tarjeta, rs_servicio = ''pagos''\<rparr>]"
proof -
  let ?v = "mundo_inicial\<lparr>fallos := [Some ''Connection terminated'']\<rparr>"
  have h: "metodoPago pago_bitcoin \<notin> Some ` set metodosValidos"
    "fallos mundo_inicial = []" "metodoPago pago_tarjeta = Some ''tarjeta_credito''"
    "''tarjeta_credito'' \<in> set metodosValidos"
    "insercion_aceptada pago_tarjeta ''tx-1'' mundo_inicial"
    "\<not> insercion_aceptada pago_tarjeta ''tx-1'' ?v"
    "transacciones mundo_inicial = []" "reloj mundo_inicial = 0"
    "pedidos_responses mundo_inicial = []"
    "productoId pago_tarjeta = Some 1" "cantidad pago_tarjeta = Some 2"
    "?v\<lparr>fallos := tl (fallos ?v)\<rparr> = mundo_inicial"
    "mundo_inicial\<lparr>fallos := tl (fallos mundo_inicial)\<rparr> = mundo_inicial"
    by (simp_all add: pago_bitcoin_def pago_tarjeta_def sin_campos_def metodosValidos_def
        mundo_inicial_def insercion_aceptada_def obtenerPrecioProducto_def
        en_rango_decimal_10_2_def)
  have a: "procesarPago ''saga-1'' pago_bitcoin ''tx-1'' True mundo_inicial
             = (Inr False, mundo_inicial)"
    using procesarPago_contract [of pago_bitcoin "''saga-1''" "''tx-1''" True mundo_inicial,
        THEN conjunct1] h(1) by simp
  have b: "procesarPago ''saga-1'' pago_tarjeta ''tx-1'' ex mundo_inicial =
        (Inr ex, mundo_inicial\<lparr>transacciones :=
           [\<lparr>transaction_id = ''tx-1'', trans_saga_id = ''saga-1'', monto = Some 900000,
             metodo_pago = ''tarjeta_credito'',
             trans_estado = (if ex then ''APROBADA'' else ''RECHAZADA''),
             referencia_externa = 0\<rparr>]\<rparr>)" for ex
    using procesarPago_contract [where pl = pago_tarjeta and m = "''tarjeta_credito''"
        and tid = "''tx-1''" and w = mundo_inicial and sid = "''saga-1''" and ex = ex,
        THEN conjunct2, THEN conjunct1] h
    by (simp add: obtenerPrecioProducto_def mundo_inicial_def)
  have c: "procesarPago ''saga-1'' pago_tarjeta ''tx-1'' True ?v = (Inr False, mundo_inicial)"
    using procesarPago_contract [where pl = pago_tarjeta and m = "''tarjeta_credito''"
        and tid = "''tx-1''" and w = ?v and sid = "''saga-1''" and ex = True,
        THEN conjunct2, THEN conjunct2, THEN conjunct1] h
    by simp
  have d: "procesarEventoPago
        \<lparr>ev_sagaId = ''saga-1'', ev_evento = ''PROCESAR_PAGO'', ev_payload = pago_tarjeta\<rparr>
        ''tx-1'' True mundo_inicial =
        (Inr (), (snd (procesarPago ''saga-1'' pago_tarjeta ''tx-1'' True mundo_inicial))
           \<lparr>pedidos_responses :=
             [\<lparr>rs_sagaId = ''saga-1'', rs_evento = ''PAGO_PROCESADO'', rs_success = True,
               rs_payload = pago_tarjeta, rs_servicio = ''pagos''\<rparr>]\<rparr>)"
    using procesarPago_contract [where tid = "''tx-1''" and ex = True and w = mundo_inicial
        and event = "\<lparr>ev_sagaId = ''saga-1'', ev_evento = ''PROCESAR_PAGO'',
                      ev_payload = pago_tarjeta\<rparr>",
        THEN conjunct2, THEN conjunct2, THEN conjunct2] h
    by simp
  show ?thesis using h a b [of False] c d by simp
qed

section \<open>Pedidos: starting a saga\<close>

lemma crearPedido_acepta:
  assumes "fallos w = []"
    and "req_usuarioId req = Some u" and "en_rango_integer u"
    and "req_productoId req = Some p" and "en_rango_integer p"
    and "req_cantidad req = Some c" and "en_rango_integer c"
    and "pid \<notin> set (map pedido_id (pedidos w))" and "sid \<notin> set (map pedido_saga_id (pedidos w))"
  shows "crearPedido sid pid req w =
     (Http201 pid sid ''INICIADA'',
      w\<lparr>pedidos := pedidos w @
           [\<lparr>pedido_id = pid, pedido_saga_id = sid, pedido_usuario_id = u,
             pedido_producto_id = p, pedido_cantidad = c, pedido_estado = ''INICIADA''\<rparr>],
        historial := historial w @ [(sid, ''INICIADA'')],
        saga_estados := saga_estados w @
           [\<lparr>paso_saga_id = sid, paso = ''CREAR_PEDIDO'', paso_estado = ''COMPLETADO''\<rparr>],
        saga_events := saga_events w @
           [\<lparr>ev_sagaId = sid, ev_evento = ''RESERVAR_INVENTARIO'',
             ev_payload = \<lparr>productoId = Some p, cantidad = Some c, pedidoId = Some pid,
               metodoPago = req_metodoPago req, razon = None, error_msg = None\<rparr>\<rparr>]\<rparr>)"
  using assms
  by (simp add: crearPedido_def io_defs insertar_pedido_def updateSagaState_def
      publishSagaEvent_def consulta_sin_fallos sentencia_sin_fallos sin_campos_def
      param_integer_def)

lemma crearPedido_rechaza:
  assumes "fallos w = []"
    and "req_usuarioId req = None \<or> req_productoId req = None \<or> req_cantidad req = None
         \<or> \<not> param_integer (req_usuarioId req) \<or> \<not> param_integer (req_productoId req)
         \<or> \<not> param_integer (req_cantidad req)"
  shows "crearPedido sid pid req w = (Http500 ''Error interno'', w)"
  using assms
  by (auto simp add: crearPedido_def io_defs insertar_pedido_def consulta_sin_fallos
      split: option.splits)

text \<open>With a token of the orchestrator's own login the insert has no \<^verbatim>\<open>usuario_id\<close>:
  the request of scenario 1 is answered 500 and nothing is created.\<close>

lemma crearPedido_token_login:
  "crearPedido ''saga-1'' ''pedido-1'' solicitud_login mundo_inicial
     = (Http500 ''Error interno'', mundo_inicial)"
  by (rule crearPedido_rechaza) (simp_all add: mundo_inicial_def solicitud_login_def)

text \<open>
  C8, as stated, fails on the code: the request of scenario 1 without a payment method is
  accepted. It is answered 201, its order row is \<^verbatim>\<open>INICIADA\<close>, and the
  \<^verbatim>\<open>RESERVAR_INVENTARIO\<close> command it emits carries no payment method.
\<close>

theorem crearPedido_sin_metodo_aceptado:
  "req_metodoPago solicitud_sin_metodo = None
   \<and> fst (crearPedido ''saga-1'' ''pedido-1'' solicitud_sin_metodo mundo_inicial)
       = Http201 ''pedido-1'' ''saga-1'' ''INICIADA''
   \<and> map pedido_estado (pedidos (snd (crearPedido ''saga-1'' ''pedido-1'' solicitud_sin_metodo
        mundo_inicial))) = [''INICIADA'']
   \<and> map (\<lambda>c. (ev_evento c, metodoPago (ev_payload c)))
        (saga_events (snd (crearPedido ''saga-1'' ''pedido-1'' solicitud_sin_metodo mundo_inicial)))
       = [(''RESERVAR_INVENTARIO'', None)]"
  by (intro conjI; code_simp)

text \<open>
  C8, amended. For a create-order request whose principal carries a \<^verbatim>\<open>usuarioId\<close> (an
  \<^verbatim>\<open>INTEGER\<close>), with identifiers that are new and when no call is rejected by the
  environment. The handler has no validation step of its own; what is checked is what the
  \<^verbatim>\<open>INSERT INTO pedidos\<close> checks. A request whose body carries a product id and a
  quantity that fit \<^verbatim>\<open>INTEGER\<close> is accepted whether or not it carries a payment method:
  the order row is created \<^verbatim>\<open>INICIADA\<close>, the step \<^verbatim>\<open>CREAR_PEDIDO/COMPLETADO\<close> is
  appended, one \<^verbatim>\<open>RESERVAR_INVENTARIO\<close> command is emitted with the product id, the
  quantity, the order id and the payment method as received, and the answer is 201 with
  the order id and the saga id. A request whose product id or quantity is missing or does
  not fit \<^verbatim>\<open>INTEGER\<close> is answered 500 and changes nothing.
\<close>

theorem crearPedido_contract:
  assumes "fallos w = []" and "req_usuarioId req = Some u" and "en_rango_integer u"
    and "pid \<notin> set (map pedido_id (pedidos w))" and "sid \<notin> set (map pedido_saga_id (pedidos w))"
  shows "(req_productoId req = Some p \<and> req_cantidad req = Some c
          \<and> en_rango_integer p \<and> en_rango_integer c \<longrightarrow>
          crearPedido sid pid req w =
            (Http201 pid sid ''INICIADA'',
             w\<lparr>pedidos := pedidos w @
                  [\<lparr>pedido_id = pid, pedido_saga_id = sid, pedido_usuario_id = u,
                    pedido_producto_id = p, pedido_cantidad = c, pedido_estado = ''INICIADA''\<rparr>],
               historial := historial w @ [(sid, ''INICIADA'')],
               saga_estados := saga_estados w @
                  [\<lparr>paso_saga_id = sid, paso = ''CREAR_PEDIDO'', paso_estado = ''COMPLETADO''\<rparr>],
               saga_events := saga_events w @
                  [\<lparr>ev_sagaId = sid, ev_evento = ''RESERVAR_INVENTARIO'',
                    ev_payload = \<lparr>productoId = Some p, cantidad = Some c, pedidoId = Some pid,
                      metodoPago = req_metodoPago req, razon = None, error_msg = None\<rparr>\<rparr>]\<rparr>))
         \<and> (req_productoId req = None \<or> req_cantidad req = None
             \<or> \<not> param_integer (req_productoId req) \<or> \<not> param_integer (req_cantidad req)
          \<longrightarrow> crearPedido sid pid req w = (Http500 ''Error interno'', w))"
  using crearPedido_acepta [OF assms(1,2,3) _ _ _ _ assms(4,5), of p c]
    crearPedido_rechaza [OF assms(1), of req sid pid]
  by blast

theorem crearPedido_contract_witness:
  "fallos mundo_inicial = []
   \<and> req_usuarioId solicitud_1 = Some 1 \<and> en_rango_integer 1
   \<and> req_productoId solicitud_1 = Some 1 \<and> req_cantidad solicitud_1 = Some 2
   \<and> en_rango_integer 2
   \<and> ''pedido-1'' \<notin> set (map pedido_id (pedidos mundo_inicial))
   \<and> ''saga-1'' \<notin> set (map pedido_saga_id (pedidos mundo_inicial))
   \<and> fst (crearPedido ''saga-1'' ''pedido-1'' solicitud_1 mundo_inicial)
       = Http201 ''pedido-1'' ''saga-1'' ''INICIADA''
   \<and> saga_events (snd (crearPedido ''saga-1'' ''pedido-1'' solicitud_1 mundo_inicial)) =
       [\<lparr>ev_sagaId = ''saga-1'', ev_evento = ''RESERVAR_INVENTARIO'',
         ev_payload = \<lparr>productoId = Some 1, cantidad = Some 2, pedidoId = Some ''pedido-1'',
           metodoPago = Some ''tarjeta_credito'', razon = None, error_msg = None\<rparr>\<rparr>]
   \<and> req_productoId (solicitud_1\<lparr>req_productoId := None\<rparr>) = None
   \<and> crearPedido ''saga-1'' ''pedido-1'' (solicitud_1\<lparr>req_productoId := None\<rparr>) mundo_inicial
       = (Http500 ''Error interno'', mundo_inicial)
   \<and> \<not> param_integer (req_cantidad (solicitud_1\<lparr>req_cantidad := Some 2147483648\<rparr>))
   \<and> crearPedido ''saga-1'' ''pedido-1'' (solicitud_1\<lparr>req_cantidad := Some 2147483648\<rparr>)
        mundo_inicial
       = (Http500 ''Error interno'', mundo_inicial)"
proof -
  have h: "fallos mundo_inicial = []" "req_usuarioId solicitud_1 = Some 1" "en_rango_integer 1"
    "''pedido-1'' \<notin> set (map pedido_id (pedidos mundo_inicial))"
    "''saga-1'' \<notin> set (map pedido_saga_id (pedidos mundo_inicial))"
    by (simp_all add: mundo_inicial_def solicitud_1_def en_rango_integer_def)
  have g: "pedidos mundo_inicial = []" "saga_events mundo_inicial = []"
    "req_productoId solicitud_1 = Some 1" "en_rango_integer 2"
    "req_cantidad solicitud_1 = Some 2" "req_metodoPago solicitud_1 = Some ''tarjeta_credito''"
    "\<not> param_integer (Some 2147483648)"
    by (simp_all add: mundo_inicial_def solicitud_1_def rango_defs)
  have u: "req_usuarioId (solicitud_1\<lparr>req_productoId := None\<rparr>) = Some 1"
    "req_usuarioId (solicitud_1\<lparr>req_cantidad := Some 2147483648\<rparr>) = Some 1"
    by (simp_all add: solicitud_1_def)
  show ?thesis
    using crearPedido_contract [OF h, of 1 2, THEN conjunct1]
      crearPedido_contract [OF h(1) u(1) h(3,4,5), THEN conjunct2]
      crearPedido_contract [OF h(1) u(2) h(3,4,5), THEN conjunct2]
      h g
    by simp
qed

section \<open>Pedidos: faults while handling a response\<close>

lemma compensateSaga_sin_fallos:
  "fallos w = [] \<Longrightarrow> compensateSaga sid rz w = (Inr (), compensado sid rz w)"
  by (simp add: compensateSaga_def compensado_def io_defs updatePedidoState_def
      publishSagaEvent_def updateSagaState_def sentencia_sin_fallos comp_def)

text \<open>
  C7, as stated, fails on the code. The store rejects the first call of the handler (the
  step insert of a successful \<^verbatim>\<open>INVENTARIO_RESERVADO\<close>), and then the first call of the
  compensation started by the \<^verbatim>\<open>catch\<close>: the exception leaves
  \<^verbatim>\<open>processSagaResponse\<close>, the order is still \<^verbatim>\<open>INICIADA\<close>, and no compensation
  command has been emitted.
\<close>

theorem processSagaResponse_propaga:
  "fst (despachar_respuesta respuesta_reservado mundo_dos_fallos)
     = Inl (Error ''Connection terminated'')
   \<and> fst (processSagaResponse respuesta_reservado mundo_dos_fallos)
     = Inl (Error ''Connection terminated'')
   \<and> map pedido_estado (pedidos (snd (processSagaResponse respuesta_reservado mundo_dos_fallos)))
     = [''INICIADA'']
   \<and> historial_de ''saga-1'' (snd (processSagaResponse respuesta_reservado mundo_dos_fallos))
     = [''INICIADA'']
   \<and> map ev_evento (saga_events (snd (processSagaResponse respuesta_reservado mundo_dos_fallos)))
     = [''RESERVAR_INVENTARIO'']"
  by (intro conjI; code_simp)

text \<open>
  C7, amended. When the \<^verbatim>\<open>switch\<close> of the handler raises, the handler runs the
  compensation of that saga with reason \<^verbatim>\<open>ERROR_INTERNO\<close>, on the world the failed
  \<^verbatim>\<open>switch\<close> left; and when no call of that compensation rejects, the handler returns
  normally: the order is \<^verbatim>\<open>CANCELADA\<close> after \<^verbatim>\<open>COMPENSANDO\<close>, both compensation
  commands are emitted and the step \<^verbatim>\<open>COMPENSACION/COMPLETADO\<close> is appended.
\<close>

theorem processSagaResponse_error_interno:
  assumes "fst (despachar_respuesta event w) = Inl e"
  shows "processSagaResponse event w =
           compensateSaga (rs_sagaId event) ''ERROR_INTERNO'' (snd (despachar_respuesta event w))
         \<and> (fallos (snd (despachar_respuesta event w)) = [] \<longrightarrow>
              processSagaResponse event w =
                (Inr (), compensado (rs_sagaId event) ''ERROR_INTERNO''
                           (snd (despachar_respuesta event w))))"
proof -
  obtain w' where d: "despachar_respuesta event w = (Inl e, w')"
    using assms by (cases "despachar_respuesta event w") auto
  then have "processSagaResponse event w = compensateSaga (rs_sagaId event) ''ERROR_INTERNO'' w'"
    by (simp add: processSagaResponse_def io_catch_def)
  then show ?thesis using d compensateSaga_sin_fallos [of w'] by simp
qed

lemma mundo_un_fallo_despacho:
  "fst (despachar_respuesta respuesta_reservado mundo_un_fallo)
     = Inl (Error ''Connection terminated'')"
  "fallos (snd (despachar_respuesta respuesta_reservado mundo_un_fallo)) = []"
  "rs_sagaId respuesta_reservado = ''saga-1''"
  "historial_de ''saga-1'' (compensado ''saga-1'' ''ERROR_INTERNO''
      (snd (despachar_respuesta respuesta_reservado mundo_un_fallo)))
     = [''INICIADA'', ''COMPENSANDO'', ''CANCELADA'']"
  "map pedido_estado (pedidos (compensado ''saga-1'' ''ERROR_INTERNO''
      (snd (despachar_respuesta respuesta_reservado mundo_un_fallo))))
     = [''CANCELADA'']"
  by code_simp+

theorem processSagaResponse_error_interno_witness:
  "fst (despachar_respuesta respuesta_reservado mundo_un_fallo)
     = Inl (Error ''Connection terminated'')
   \<and> fallos (snd (despachar_respuesta respuesta_reservado mundo_un_fallo)) = []
   \<and> fst (processSagaResponse respuesta_reservado mundo_un_fallo) = Inr ()
   \<and> historial_de ''saga-1'' (snd (processSagaResponse respuesta_reservado mundo_un_fallo))
       = [''INICIADA'', ''COMPENSANDO'', ''CANCELADA'']
   \<and> map pedido_estado (pedidos (snd (processSagaResponse respuesta_reservado mundo_un_fallo)))
       = [''CANCELADA'']"
proof -
  have e: "processSagaResponse respuesta_reservado mundo_un_fallo =
      (Inr (), compensado ''saga-1'' ''ERROR_INTERNO''
                 (snd (despachar_respuesta respuesta_reservado mundo_un_fallo)))"
    using processSagaResponse_error_interno [OF mundo_un_fallo_despacho(1), THEN conjunct2]
      mundo_un_fallo_despacho(2,3)
    by simp
  show ?thesis using mundo_un_fallo_despacho by (simp add: e)
qed

section \<open>A release that fails\<close>

text \<open>
  C10. When \<^verbatim>\<open>liberarStock\<close> raises while inventario handles a
  \<^verbatim>\<open>LIBERAR_INVENTARIO\<close> command (and the send of the \<^verbatim>\<open>catch\<close> goes through),
  inventario returns normally after queueing one response with event name
  \<^verbatim>\<open>INVENTARIO_RESERVADO\<close>, \<^verbatim>\<open>success = false\<close> and the error message as payload. The
  orchestrator, in any world where no call rejects and whatever the status of the order,
  handles that response by running the whole compensation again with reason
  \<^verbatim>\<open>INVENTARIO_NO_DISPONIBLE\<close>: it writes \<^verbatim>\<open>COMPENSANDO\<close> and \<^verbatim>\<open>CANCELADA\<close>, emits
  \<^verbatim>\<open>COMPENSAR_PAGO\<close> and \<^verbatim>\<open>LIBERAR_INVENTARIO\<close> and appends the step
  \<^verbatim>\<open>COMPENSACION/COMPLETADO\<close>.
\<close>

theorem liberar_fallido_recompensa:
  assumes "ev_evento event = ''LIBERAR_INVENTARIO''"
    and "fst (liberarStock (ev_sagaId event) w) = Inl e"
    and "fallos (snd (liberarStock (ev_sagaId event) w)) = []"
  shows "procesarEventoInventario event w =
           (Inr (), (snd (liberarStock (ev_sagaId event) w))
              \<lparr>pedidos_responses := pedidos_responses w @
                [\<lparr>rs_sagaId = ev_sagaId event, rs_evento = ''INVENTARIO_RESERVADO'',
                  rs_success = False, rs_payload = sin_campos\<lparr>error_msg := Some (mensaje e)\<rparr>,
                  rs_servicio = ''inventario''\<rparr>]\<rparr>)
         \<and> (\<forall>v. fallos v = [] \<longrightarrow>
               processSagaResponse
                 \<lparr>rs_sagaId = ev_sagaId event, rs_evento = ''INVENTARIO_RESERVADO'',
                   rs_success = False, rs_payload = sin_campos\<lparr>error_msg := Some (mensaje e)\<rparr>,
                   rs_servicio = ''inventario''\<rparr> v
               = (Inr (), compensado (ev_sagaId event) ''INVENTARIO_NO_DISPONIBLE'' v))"
proof -
  obtain w' where d: "liberarStock (ev_sagaId event) w = (Inl e, w')"
    using assms(2) by (cases "liberarStock (ev_sagaId event) w") auto
  have q: "pedidos_responses w' = pedidos_responses w"
    using d
    by (auto simp add: liberar_defs sentencia_def consulta_def
        split: list.splits option.splits if_splits prod.splits sum.splits)
  have 1: "procesarEventoInventario event w =
     (Inr (), w'\<lparr>pedidos_responses := pedidos_responses w @
                [\<lparr>rs_sagaId = ev_sagaId event, rs_evento = ''INVENTARIO_RESERVADO'',
                  rs_success = False, rs_payload = sin_campos\<lparr>error_msg := Some (mensaje e)\<rparr>,
                  rs_servicio = ''inventario''\<rparr>]\<rparr>)"
    using assms d q
    by (simp add: procesarEventoInventario_def io_catch_def enviarRespuesta_def
        sentencia_sin_fallos)
  have 2: "processSagaResponse
                 \<lparr>rs_sagaId = ev_sagaId event, rs_evento = ''INVENTARIO_RESERVADO'',
                   rs_success = False, rs_payload = pl, rs_servicio = ''inventario''\<rparr> v
               = (Inr (), compensado (ev_sagaId event) ''INVENTARIO_NO_DISPONIBLE'' v)"
    if "fallos v = []" for v pl
    using that
    by (simp add: processSagaResponse_def despachar_respuesta_def io_catch_def
        compensateSaga_sin_fallos)
  show ?thesis using 1 2 d by simp
qed

lemma mundo_liberar_falla_hechos:
  "ev_evento evento_liberar = ''LIBERAR_INVENTARIO''"
  "ev_sagaId evento_liberar = ''saga-1''"
  "saga_events mundo_cancelado = [evento_liberar]"
  "map pedido_estado (pedidos mundo_cancelado) = [''CANCELADA'']"
  "fst (liberarStock ''saga-1'' mundo_liberar_falla) = Inl (Error ''Connection terminated'')"
  "fallos (snd (liberarStock ''saga-1'' mundo_liberar_falla)) = []"
  "pedidos_responses mundo_liberar_falla = []"
  "fallos mundo_cancelado = []"
  "historial_de ''saga-1'' (compensado ''saga-1'' ''INVENTARIO_NO_DISPONIBLE'' mundo_cancelado)
     = [''INICIADA'', ''INVENTARIO_RESERVADO'', ''COMPENSANDO'', ''CANCELADA'',
        ''COMPENSANDO'', ''CANCELADA'']"
  "map ev_evento (saga_events (compensado ''saga-1'' ''INVENTARIO_NO_DISPONIBLE'' mundo_cancelado))
     = [''LIBERAR_INVENTARIO'', ''COMPENSAR_PAGO'', ''LIBERAR_INVENTARIO'']"
  by code_simp+

theorem liberar_fallido_recompensa_witness:
  "ev_evento evento_liberar = ''LIBERAR_INVENTARIO''
   \<and> fst (liberarStock (ev_sagaId evento_liberar) mundo_liberar_falla)
       = Inl (Error ''Connection terminated'')
   \<and> fallos (snd (liberarStock (ev_sagaId evento_liberar) mundo_liberar_falla)) = []
   \<and> fst (procesarEventoInventario evento_liberar mundo_liberar_falla) = Inr ()
   \<and> pedidos_responses (snd (procesarEventoInventario evento_liberar mundo_liberar_falla))
       = [respuesta_liberar_fallido]
   \<and> map pedido_estado (pedidos mundo_cancelado) = [''CANCELADA'']
   \<and> fallos mundo_cancelado = []
   \<and> fst (processSagaResponse respuesta_liberar_fallido mundo_cancelado) = Inr ()
   \<and> historial_de ''saga-1'' (snd (processSagaResponse respuesta_liberar_fallido mundo_cancelado))
       = [''INICIADA'', ''INVENTARIO_RESERVADO'', ''COMPENSANDO'', ''CANCELADA'',
          ''COMPENSANDO'', ''CANCELADA'']
   \<and> map ev_evento (saga_events (snd (processSagaResponse respuesta_liberar_fallido
        mundo_cancelado)))
       = [''LIBERAR_INVENTARIO'', ''COMPENSAR_PAGO'', ''LIBERAR_INVENTARIO'']"
proof -
  have h: "fst (liberarStock (ev_sagaId evento_liberar) mundo_liberar_falla)
             = Inl (Error ''Connection terminated'')"
    "fallos (snd (liberarStock (ev_sagaId evento_liberar) mundo_liberar_falla)) = []"
    using mundo_liberar_falla_hechos by simp_all
  note t = liberar_fallido_recompensa [OF mundo_liberar_falla_hechos(1) h]
  have a: "procesarEventoInventario evento_liberar mundo_liberar_falla =
      (Inr (), (snd (liberarStock ''saga-1'' mundo_liberar_falla))
         \<lparr>pedidos_responses := [respuesta_liberar_fallido]\<rparr>)"
    using t [THEN conjunct1] mundo_liberar_falla_hechos(2,7)
    by (simp add: respuesta_liberar_fallido_def mensaje_def)
  have b: "processSagaResponse respuesta_liberar_fallido mundo_cancelado =
      (Inr (), compensado ''saga-1'' ''INVENTARIO_NO_DISPONIBLE'' mundo_cancelado)"
    using t [THEN conjunct2, rule_format, OF mundo_liberar_falla_hechos(8)]
      mundo_liberar_falla_hechos(2)
    by (simp add: respuesta_liberar_fallido_def mensaje_def)
  show ?thesis using mundo_liberar_falla_hechos by (simp add: a b)
qed

section \<open>Pedidos: the statuses written for a saga\<close>

lemma processSagaResponse_sin_fallos:
  "fallos w = [] \<Longrightarrow>
     fst (processSagaResponse r w) = Inr () \<and> fallos (snd (processSagaResponse r w)) = []
     \<and> historial (snd (processSagaResponse r w)) = historial w @ escrituras r"
  by (simp add: processSagaResponse_def despachar_respuesta_def io_defs escrituras_def
      compensateSaga_sin_fallos compensado_def updateSagaState_def updatePedidoState_def
      publishSagaEvent_def sentencia_sin_fallos)

lemma procesar_respuestas_historial:
  "fallos w = [] \<Longrightarrow>
     historial (procesar_respuestas rs w) = historial w @ concat (map escrituras rs)"
  by (induction rs arbitrary: w) (simp_all add: processSagaResponse_sin_fallos)

lemma etapa_hist_valido: "etapa_hist k h \<Longrightarrow> camino_valido h"
  by (cases "k \<le> 3") (auto simp add: etapa_hist_def camino_valido_def take_is_prefix)

lemma escrituras_de_saga:
  "map snd (filter (\<lambda>h. fst h = rs_sagaId r) (escrituras r)) = map snd (escrituras r)"
  "sid \<noteq> rs_sagaId r \<Longrightarrow> filter (\<lambda>h. fst h = sid) (escrituras r) = []"
  by (simp_all add: escrituras_def)

lemma etapa_compensada:
  "k < 3 \<Longrightarrow> etapa_hist k h \<Longrightarrow> etapa_hist 4 (h @ [''COMPENSANDO'', ''CANCELADA''])"
proof -
  assume a: "k < 3" "etapa_hist k h"
  then consider "k = 0" | "k = 1" | "k = 2" by linarith
  then show ?thesis using a(2) by cases (simp_all add: etapa_hist_def numeral_2_eq_2 numeral_3_eq_3)
qed

lemma avanzar_etapa:
  assumes "avanzar k r = Some k'" and "etapa_hist k h"
  shows "etapa_hist k' (h @ map snd (escrituras r))"
proof -
  consider (a) "rs_evento r = ''INVENTARIO_RESERVADO''" "rs_success r"
    | (b) "rs_evento r = ''INVENTARIO_RESERVADO''" "\<not> rs_success r"
    | (c) "rs_evento r = ''PAGO_PROCESADO''" "rs_success r"
    | (d) "rs_evento r = ''PAGO_PROCESADO''" "\<not> rs_success r"
    | (e) "rs_evento r = ''PEDIDO_CONFIRMADO''"
    | (f) "rs_evento r \<noteq> ''INVENTARIO_RESERVADO''" "rs_evento r \<noteq> ''PAGO_PROCESADO''"
          "rs_evento r \<noteq> ''PEDIDO_CONFIRMADO''"
    by blast
  then show ?thesis
  proof cases
    case a
    then have "k = 0" "k' = 1" using assms(1) by (simp_all add: avanzar_def split: if_splits)
    then show ?thesis using assms(2) a by (simp add: etapa_hist_def escrituras_def adelante_def)
  next
    case b
    then have "k < 3" "k' = 4" using assms(1) by (simp_all add: avanzar_def split: if_splits)
    then show ?thesis using etapa_compensada [OF _ assms(2)] b by (simp add: escrituras_def)
  next
    case c
    then have "k = 1" "k' = 2" using assms(1) by (simp_all add: avanzar_def split: if_splits)
    then show ?thesis using assms(2) c by (simp add: etapa_hist_def escrituras_def adelante_def)
  next
    case d
    then have "k < 3" "k' = 4" using assms(1) by (simp_all add: avanzar_def split: if_splits)
    then show ?thesis using etapa_compensada [OF _ assms(2)] d by (simp add: escrituras_def)
  next
    case e
    then have "k = 2" "k' = 3" using assms(1) by (simp_all add: avanzar_def split: if_splits)
    then show ?thesis using assms(2) e by (simp add: etapa_hist_def escrituras_def adelante_def)
  next
    case f
    then have "k' = k" using assms(1) by (simp add: avanzar_def)
    then show ?thesis using assms(2) f by (simp add: escrituras_def)
  qed
qed

lemma en_orden_etapas:
  "fallos w = [] \<Longrightarrow> etapa_hist k (historial_de sid w) \<Longrightarrow> en_orden sid k rs \<Longrightarrow>
     \<exists>k'. etapa_hist k' (historial_de sid (procesar_respuestas rs w))"
proof (induction rs arbitrary: w k)
  case Nil
  then show ?case by auto
next
  case (Cons r rs)
  let ?w = "snd (processSagaResponse r w)"
  have f: "fallos ?w = []" and h: "historial ?w = historial w @ escrituras r"
    using processSagaResponse_sin_fallos [OF Cons.prems(1), of r] by simp_all
  have "\<exists>k'. etapa_hist k' (historial_de sid ?w) \<and> en_orden sid k' rs"
  proof (cases "rs_sagaId r = sid")
    case False
    then have "historial_de sid ?w = historial_de sid w"
      using escrituras_de_saga(2) [of sid r] by (simp add: historial_de_def h)
    then show ?thesis using Cons.prems False by auto
  next
    case True
    then obtain k' where k': "avanzar k r = Some k'" "en_orden sid k' rs"
      using Cons.prems(3) by (auto split: option.splits)
    have "historial_de sid ?w = historial_de sid w @ map snd (escrituras r)"
      using escrituras_de_saga(1) [of r] True by (simp add: historial_de_def h)
    then show ?thesis using avanzar_etapa [OF k'(1) Cons.prems(2)] k'(2) by auto
  qed
  then obtain k' where "etapa_hist k' (historial_de sid ?w)" "en_orden sid k' rs" by blast
  from Cons.IH [OF f this] show ?case by simp
qed

text \<open>
  C4, as stated, fails on the code. In scenario 3 the reservation succeeds and the payment
  is declined, so the order is cancelled; the queue then delivers the
  \<^verbatim>\<open>INVENTARIO_RESERVADO\<close> response a second time. The handler writes
  \<^verbatim>\<open>INVENTARIO_RESERVADO\<close> over \<^verbatim>\<open>CANCELADA\<close>: the statuses written for the saga are
  not a valid path, and the order ends in a forward state.
\<close>

theorem saga_reentrega_retrocede:
  "historial_de ''saga-1'' mundo_1 = [''INICIADA'']
   \<and> historial_de ''saga-1''
        (procesar_respuestas [respuesta_reservado, respuesta_pago_rechazado, respuesta_reservado]
           mundo_1)
       = [''INICIADA'', ''INVENTARIO_RESERVADO'', ''COMPENSANDO'', ''CANCELADA'',
          ''INVENTARIO_RESERVADO'']
   \<and> \<not> camino_valido (historial_de ''saga-1''
        (procesar_respuestas [respuesta_reservado, respuesta_pago_rechazado, respuesta_reservado]
           mundo_1))
   \<and> map pedido_estado (pedidos
        (procesar_respuestas [respuesta_reservado, respuesta_pago_rechazado, respuesta_reservado]
           mundo_1))
       = [''INVENTARIO_RESERVADO'']"
  by (intro conjI; code_simp)

text \<open>
  C4, amended. The handler writes the status that the event names, without reading the
  current one: in an environment without faults the statuses written while handling a
  list of responses are those of \<open>escrituras\<close>, response by response. Hence, for a saga
  whose only status so far is \<^verbatim>\<open>INICIADA\<close>, when the responses of that saga arrive in
  protocol order (each forward response once and at its stage, at most one failure, and
  nothing after a terminal status), the sequence of statuses written for the saga is a
  prefix of INICIADA, INVENTARIO_RESERVADO, PAGO_PROCESADO, COMPLETADA or a forward prefix
  followed by COMPENSANDO, CANCELADA.
\<close>

theorem saga_en_orden_camino_valido:
  assumes "fallos w = []" and "historial_de sid w = [''INICIADA'']" and "en_orden sid 0 rs"
  shows "historial (procesar_respuestas rs w) = historial w @ concat (map escrituras rs)
         \<and> camino_valido (historial_de sid (procesar_respuestas rs w))"
proof -
  have "etapa_hist 0 (historial_de sid w)"
    using assms(2) by (simp add: etapa_hist_def adelante_def)
  then show ?thesis
    using en_orden_etapas [OF assms(1) _ assms(3)] etapa_hist_valido
      procesar_respuestas_historial [OF assms(1)]
    by blast
qed


lemma mundo_1_en_orden:
  "fallos mundo_1 = []"
  "historial_de ''saga-1'' mundo_1 = [''INICIADA'']"
  "en_orden ''saga-1'' 0 [respuesta_reservado, respuesta_pago_rechazado]"
  "concat (map escrituras [respuesta_reservado, respuesta_pago_rechazado])
     = [(''saga-1'', ''INVENTARIO_RESERVADO''), (''saga-1'', ''COMPENSANDO''),
        (''saga-1'', ''CANCELADA'')]"
  "historial mundo_1 = [(''saga-1'', ''INICIADA'')]"
  by code_simp+

theorem saga_en_orden_camino_valido_witness:
  "fallos mundo_1 = [] \<and> historial_de ''saga-1'' mundo_1 = [''INICIADA'']
   \<and> en_orden ''saga-1'' 0 [respuesta_reservado, respuesta_pago_rechazado]
   \<and> historial (procesar_respuestas [respuesta_reservado, respuesta_pago_rechazado] mundo_1)
       = [(''saga-1'', ''INICIADA''), (''saga-1'', ''INVENTARIO_RESERVADO''),
          (''saga-1'', ''COMPENSANDO''), (''saga-1'', ''CANCELADA'')]
   \<and> camino_valido (historial_de ''saga-1''
        (procesar_respuestas [respuesta_reservado, respuesta_pago_rechazado] mundo_1))"
  using saga_en_orden_camino_valido [OF mundo_1_en_orden(1,2,3)] mundo_1_en_orden
  by simp

section \<open>The composed system on the happy path\<close>

text \<open>Every call of the three services keeps \<open>sin_confirmar\<close>, whatever calls reject:
  no participant sends \<^verbatim>\<open>PEDIDO_CONFIRMADO\<close>, and the orchestrator writes
  \<^verbatim>\<open>COMPLETADA\<close> only when it handles that response.\<close>

lemma conserva_return: "conserva (io_return a)"
  by (simp add: conserva_def io_return_def)

lemma conserva_throw: "conserva (io_throw e)"
  by (simp add: conserva_def io_throw_def)

lemma conserva_bind: "conserva m \<Longrightarrow> (\<And>a. conserva (f a)) \<Longrightarrow> conserva (io_bind m f)"
  unfolding conserva_def io_bind_def
  by (auto split: prod.splits sum.splits)

lemma conserva_catch: "conserva m \<Longrightarrow> (\<And>e. conserva (h e)) \<Longrightarrow> conserva (io_catch m h)"
  unfolding conserva_def io_catch_def
  by (auto split: prod.splits sum.splits)

lemma sin_confirmar_fallos: "sin_confirmar (w\<lparr>fallos := fs\<rparr>) = sin_confirmar w"
  by (simp add: sin_confirmar_def)

lemma conserva_consulta:
  "(\<And>w. sin_confirmar w \<Longrightarrow> sin_confirmar (snd (f w))) \<Longrightarrow> conserva (consulta f)"
  unfolding conserva_def consulta_def
  by (auto simp add: sin_confirmar_fallos split: list.splits option.splits)

lemma conserva_sentencia:
  "(\<And>w. sin_confirmar w \<Longrightarrow> sin_confirmar (g w)) \<Longrightarrow> conserva (sentencia g)"
  unfolding sentencia_def by (rule conserva_consulta) simp

lemmas conserva_reglas = conserva_return conserva_throw conserva_bind conserva_catch

lemma conserva_enviarRespuesta:
  "ev \<noteq> ''PEDIDO_CONFIRMADO'' \<Longrightarrow> conserva (enviarRespuesta srv sid ev ok pl)"
  unfolding enviarRespuesta_def
  by (rule conserva_sentencia) (simp add: sin_confirmar_def)

lemma conserva_tx: "conserva pool_connect" "conserva sql_begin" "conserva sql_commit"
  unfolding tx_defs by (rule conserva_sentencia, simp)+

lemma conserva_rollback: "conserva (rollback w0)"
  unfolding conserva_def rollback_def sentencia_def consulta_def
  by (auto simp add: sin_confirmar_def split: list.splits option.splits)

lemma conserva_inventario_sql:
  "conserva (seleccionar_stock pid)" "conserva (actualizar_stock f d pid)"
  "conserva (insertar_reserva sid pid cant)" "conserva (seleccionar_reservas_activas sid)"
  "conserva (marcar_liberadas sid)" "conserva marcar_expiradas" "conserva devolver_stock_expiradas"
  unfolding seleccionar_stock_def actualizar_stock_def insertar_reserva_def
    seleccionar_reservas_activas_def marcar_liberadas_def marcar_expiradas_def
    devolver_stock_expiradas_def sentencia_def
  by (rule conserva_consulta, simp add: sin_confirmar_def split: option.splits)+

lemma conserva_reservarStock: "conserva (reservarStock sid pid cant)"
proof -
  have "conserva (io_bind pool_connect (\<lambda>_.
       io_catch
         (io_bind sql_begin (\<lambda>_.
          io_bind (seleccionar_stock pid) (\<lambda>stockResult.
            case stockResult of
              None \<Rightarrow> io_throw (Error ''Producto no encontrado'')
            | Some stockDisponible \<Rightarrow>
                if js_menor stockDisponible cant
                then io_bind (rollback w0) (\<lambda>_. io_return False)
                else
                  io_bind (actualizar_stock (-) cant pid) (\<lambda>_.
                  io_bind (insertar_reserva sid pid cant) (\<lambda>_.
                  io_bind sql_commit (\<lambda>_.
                  io_return True))))))
         (\<lambda>error. io_bind (rollback w0) (\<lambda>_. io_throw error))))" for w0
    by (intro conserva_reglas conserva_tx conserva_rollback conserva_inventario_sql)
       (auto intro!: conserva_reglas conserva_tx conserva_rollback conserva_inventario_sql
          split: option.splits)
  then show ?thesis
    unfolding conserva_def reservarStock_def by blast
qed


lemma conserva_liberarStock: "conserva (liberarStock sid)"
proof -
  have "conserva (io_bind pool_connect (\<lambda>_.
       io_catch
         (io_bind sql_begin (\<lambda>_.
          io_bind (seleccionar_reservas_activas sid) (\<lambda>reservaResult.
          io_bind
            (case reservaResult of
               [] \<Rightarrow> io_return ()
             | reserva # _ \<Rightarrow>
                 io_bind (actualizar_stock (+) (Some (cantidad_reservada reserva))
                            (Some (reserva_producto_id reserva))) (\<lambda>_.
                 marcar_liberadas sid))
            (\<lambda>_. sql_commit))))
         (\<lambda>error. io_bind (rollback w0) (\<lambda>_. io_throw error))))" for w0
    by (intro conserva_reglas conserva_tx conserva_rollback conserva_inventario_sql)
       (auto intro!: conserva_reglas conserva_tx conserva_rollback conserva_inventario_sql
          split: list.splits)
  then show ?thesis
    unfolding conserva_def liberarStock_def by blast
qed

lemma conserva_procesarEventoInventario: "conserva (procesarEventoInventario event)"
  unfolding procesarEventoInventario_def
  by (intro conserva_reglas conserva_enviarRespuesta conserva_reservarStock
        conserva_liberarStock)
     (simp_all add: conserva_reglas conserva_enviarRespuesta conserva_reservarStock
        conserva_liberarStock)

lemma conserva_limpiar: "conserva limpiarReservasExpiradas"
  unfolding limpiarReservasExpiradas_def
  by (intro conserva_reglas conserva_inventario_sql)
     (simp_all add: conserva_reglas conserva_inventario_sql)

lemma conserva_pagos_sql:
  "conserva (insertar_transaccion tid sid m metodo e)" "conserva (seleccionar_aprobadas sid)"
  "conserva (marcar_revertida tid)"
  unfolding insertar_transaccion_def seleccionar_aprobadas_def marcar_revertida_def sentencia_def
  by (rule conserva_consulta, simp add: sin_confirmar_def)+

lemma conserva_procesarPago: "conserva (procesarPago sid pl tid ex)"
  unfolding procesarPago_def Let_def
  by (intro conserva_reglas)
     (auto intro!: conserva_reglas conserva_pagos_sql split: option.splits)

lemma conserva_compensarPago: "conserva (compensarPago sid)"
  unfolding compensarPago_def
  by (intro conserva_reglas conserva_pagos_sql)
     (auto intro!: conserva_reglas conserva_pagos_sql split: list.splits)

lemma conserva_procesarEventoPago: "conserva (procesarEventoPago event tid ex)"
  unfolding procesarEventoPago_def
  by (intro conserva_reglas conserva_enviarRespuesta conserva_procesarPago
        conserva_compensarPago)
     (simp_all add: conserva_reglas conserva_enviarRespuesta conserva_procesarPago
        conserva_compensarPago)

lemma conserva_pedidos_sql:
  "conserva (publishSagaEvent sid ev pl)" "conserva (updateSagaState sid p e)"
  unfolding publishSagaEvent_def updateSagaState_def
  by (rule conserva_sentencia, simp add: sin_confirmar_def)+

lemma estados_actualizados:
  "e \<noteq> c \<Longrightarrow> c \<notin> set (map pedido_estado ps) \<Longrightarrow>
   c \<notin> set (map pedido_estado
      (map (\<lambda>p. if pedido_saga_id p = sid then p\<lparr>pedido_estado := e\<rparr> else p) ps))"
  by (induction ps) auto

lemma conserva_updatePedidoState:
  "e \<noteq> ''COMPLETADA'' \<Longrightarrow> conserva (updatePedidoState sid e)"
  unfolding updatePedidoState_def
  by (rule conserva_sentencia) (simp add: sin_confirmar_def estados_actualizados del: set_map map_map)

lemma conserva_compensateSaga: "conserva (compensateSaga sid rz)"
  unfolding compensateSaga_def
  by (intro conserva_reglas conserva_pedidos_sql conserva_updatePedidoState) simp_all

lemma conserva_processSagaResponse:
  "rs_evento event \<noteq> ''PEDIDO_CONFIRMADO'' \<Longrightarrow> conserva (processSagaResponse event)"
  unfolding processSagaResponse_def despachar_respuesta_def
  by (intro conserva_reglas conserva_compensateSaga)
     (simp add: conserva_reglas conserva_compensateSaga conserva_pedidos_sql
        conserva_updatePedidoState)


lemma sin_confirmar_saga_events: "sin_confirmar (w\<lparr>saga_events := q\<rparr>) = sin_confirmar w"
  by (simp add: sin_confirmar_def)

lemma conserva_recibir_inventario: "conserva recibir_inventario"
proof -
  have "sin_confirmar (snd (recibir_inventario w))" if p: "sin_confirmar w" for w
  proof (cases "saga_events w")
    case Nil
    then show ?thesis using p by (simp add: recibir_inventario_def)
  next
    case (Cons event resto)
    let ?m = "if ev_evento event = ''RESERVAR_INVENTARIO'' \<or> ev_evento event = ''LIBERAR_INVENTARIO''
              then procesarEventoInventario event else io_return ()"
    have "conserva ?m"
      by (simp add: conserva_procesarEventoInventario conserva_return)
    then have "sin_confirmar (snd (?m (w\<lparr>saga_events := resto\<rparr>)))"
      using p by (simp add: conserva_def sin_confirmar_saga_events)
    then show ?thesis
      using Cons
      by (cases "?m (w\<lparr>saga_events := resto\<rparr>)")
         (auto simp add: recibir_inventario_def sin_confirmar_saga_events split: sum.splits)
  qed
  then show ?thesis by (simp add: conserva_def)
qed

lemma conserva_recibir_pagos: "conserva (recibir_pagos tid ex)"
proof -
  have "sin_confirmar (snd (recibir_pagos tid ex w))" if p: "sin_confirmar w" for w
  proof (cases "saga_events w")
    case Nil
    then show ?thesis using p by (simp add: recibir_pagos_def)
  next
    case (Cons event resto)
    let ?m = "if ev_evento event = ''PROCESAR_PAGO'' \<or> ev_evento event = ''COMPENSAR_PAGO''
              then procesarEventoPago event tid ex else io_return ()"
    have "conserva ?m"
      by (simp add: conserva_procesarEventoPago conserva_return)
    then have "sin_confirmar (snd (?m (w\<lparr>saga_events := resto\<rparr>)))"
      using p by (simp add: conserva_def sin_confirmar_saga_events)
    then show ?thesis
      using Cons
      by (cases "?m (w\<lparr>saga_events := resto\<rparr>)")
         (auto simp add: recibir_pagos_def sin_confirmar_saga_events split: sum.splits)
  qed
  then show ?thesis by (simp add: conserva_def)
qed

lemma conserva_recibir_pedidos: "conserva recibir_pedidos"
proof -
  have "sin_confirmar (snd (recibir_pedidos w))" if p: "sin_confirmar w" for w
  proof (cases "pedidos_responses w")
    case Nil
    then show ?thesis using p by (simp add: recibir_pedidos_def)
  next
    case (Cons event resto)
    have e: "rs_evento event \<noteq> ''PEDIDO_CONFIRMADO''"
      and r: "sin_confirmar (w\<lparr>pedidos_responses := resto\<rparr>)"
      using p Cons by (auto simp add: sin_confirmar_def)
    have q: "sin_confirmar (snd (processSagaResponse event (w\<lparr>pedidos_responses := resto\<rparr>)))"
      using conserva_processSagaResponse [OF e] r by (simp add: conserva_def)
    have s: "sin_confirmar (v\<lparr>pedidos_responses := event # pedidos_responses v\<rparr>)"
      if "sin_confirmar v" for v
      using that e by (simp add: sin_confirmar_def)
    show ?thesis
      using Cons q s
      by (cases "processSagaResponse event (w\<lparr>pedidos_responses := resto\<rparr>)")
         (auto simp add: recibir_pedidos_def split: sum.splits)
  qed
  then show ?thesis by (simp add: conserva_def)
qed

lemma sin_confirmar_mover: "sin_confirmar w \<Longrightarrow> sin_confirmar (mover a w)"
proof (cases a)
  case (Tic d)
  assume "sin_confirmar w"
  then show ?thesis using Tic by (simp add: sin_confirmar_def)
qed (use conserva_recibir_inventario conserva_recibir_pagos conserva_recibir_pedidos
      conserva_limpiar in \<open>simp_all add: conserva_def\<close>)

lemma sin_confirmar_ejecutar: "sin_confirmar w \<Longrightarrow> sin_confirmar (ejecutar plan w)"
  by (induction plan arbitrary: w) (simp_all add: sin_confirmar_mover)

lemma sin_confirmar_mundo_1: "sin_confirmar mundo_1"
  unfolding sin_confirmar_def by code_simp

text \<open>
  C1. Happy path, on the code. The request of scenario 1 is accepted (201). Under the
  most favourable schedule the stock is reserved (8 left, reservation \<^verbatim>\<open>ACTIVA\<close>), the
  payment is approved, and the orchestrator emits \<^verbatim>\<open>CONFIRMAR_PEDIDO\<close>; the consumer
  that receives that command acknowledges it without handling it, both queues are then
  empty, and the order stays \<^verbatim>\<open>PAGO_PROCESADO\<close>. Under every schedule and every
  environment, no \<^verbatim>\<open>PEDIDO_CONFIRMADO\<close> response is ever queued and the order is never
  \<^verbatim>\<open>COMPLETADA\<close>.
\<close>

theorem escenario_1_no_completa:
  "fst (crearPedido ''saga-1'' ''pedido-1'' solicitud_1 mundo_inicial)
     = Http201 ''pedido-1'' ''saga-1'' ''INICIADA''
   \<and> map ev_evento (saga_events (ejecutar (take 4 plan_ideal) mundo_1)) = [''CONFIRMAR_PEDIDO'']
   \<and> map trans_estado (transacciones (ejecutar plan_ideal mundo_1)) = [''APROBADA'']
   \<and> map reserva_estado (reservas_temporales (ejecutar plan_ideal mundo_1)) = [''ACTIVA'']
   \<and> productos (ejecutar plan_ideal mundo_1) 1 = Some 8
   \<and> saga_events (ejecutar plan_ideal mundo_1) = []
   \<and> pedidos_responses (ejecutar plan_ideal mundo_1) = []
   \<and> map pedido_estado (pedidos (ejecutar plan_ideal mundo_1)) = [''PAGO_PROCESADO'']
   \<and> (\<forall>plan fs.
          ''PEDIDO_CONFIRMADO'' \<notin> set (map rs_evento
             (pedidos_responses (ejecutar plan (mundo_1\<lparr>fallos := fs\<rparr>))))
          \<and> ''COMPLETADA'' \<notin> set (map pedido_estado
             (pedidos (ejecutar plan (mundo_1\<lparr>fallos := fs\<rparr>)))))"
proof -
  have "sin_confirmar (mundo_1\<lparr>fallos := fs\<rparr>)" for fs
    using sin_confirmar_mundo_1 by (simp add: sin_confirmar_fallos)
  then have g: "\<forall>plan fs.
          ''PEDIDO_CONFIRMADO'' \<notin> set (map rs_evento
             (pedidos_responses (ejecutar plan (mundo_1\<lparr>fallos := fs\<rparr>))))
          \<and> ''COMPLETADA'' \<notin> set (map pedido_estado
             (pedidos (ejecutar plan (mundo_1\<lparr>fallos := fs\<rparr>))))"
    using sin_confirmar_ejecutar by (simp add: sin_confirmar_def)
  have c: "fst (crearPedido ''saga-1'' ''pedido-1'' solicitud_1 mundo_inicial)
     = Http201 ''pedido-1'' ''saga-1'' ''INICIADA''"
   "map ev_evento (saga_events (ejecutar (take 4 plan_ideal) mundo_1)) = [''CONFIRMAR_PEDIDO'']"
   "map trans_estado (transacciones (ejecutar plan_ideal mundo_1)) = [''APROBADA'']"
   "map reserva_estado (reservas_temporales (ejecutar plan_ideal mundo_1)) = [''ACTIVA'']"
   "productos (ejecutar plan_ideal mundo_1) 1 = Some 8"
   "saga_events (ejecutar plan_ideal mundo_1) = []"
   "pedidos_responses (ejecutar plan_ideal mundo_1) = []"
   "map pedido_estado (pedidos (ejecutar plan_ideal mundo_1)) = [''PAGO_PROCESADO'']"
    by code_simp+
  show ?thesis using g c by blast
qed


end
